theory Spec2Isabelle
  imports Main
begin

section \<open>Python values\<close>

text \<open>
  A Python \<open>str\<close> is a sequence of Unicode code points; \<open>len\<close>, slicing, \<open>in\<close> and
  \<open>count\<close> all work on code points. The model keeps that: a string is the list of its code
  points. The Korean literals of the source are written out as code points (decimal), with the
  literal, in Python escape notation, in a comment next to each.
\<close>

type_synonym pystr = "nat list"

definition ascii :: "string \<Rightarrow> pystr" where
  "ascii s = map of_char s"

text \<open>
  The values that \<open>json.load\<close> yields and \<open>json.dump\<close> accepts. A dict is an
  association list in insertion order, as Python dicts are. (JSON numbers with a fraction
  are left out: no operation below computes with them.)
\<close>

datatype json =
    JNull
  | JBool bool
  | JInt int
  | JStr pystr
  | JList "json list"
  | JDict "(pystr \<times> json) list"

type_synonym pydict = "(pystr \<times> json) list"

text \<open>Python truthiness, \<open>bool(x)\<close>.\<close>

fun truthy :: "json \<Rightarrow> bool" where
  "truthy JNull = False"
| "truthy (JBool b) = b"
| "truthy (JInt n) = (n \<noteq> 0)"
| "truthy (JStr s) = (s \<noteq> [])"
| "truthy (JList xs) = (xs \<noteq> [])"
| "truthy (JDict kvs) = (kvs \<noteq> [])"

text \<open>\<open>d.get(k)\<close> is \<open>None\<close> for a missing key, and \<open>None\<close> is falsy.\<close>

definition dict_get :: "pydict \<Rightarrow> pystr \<Rightarrow> json option" where
  "dict_get d k = map_of d k"

definition truthy_opt :: "json option \<Rightarrow> bool" where
  "truthy_opt v = (case v of None \<Rightarrow> False | Some x \<Rightarrow> truthy x)"

text \<open>\<open>d[k] = v\<close>: an existing key keeps its position, a new key goes to the end.\<close>

fun dict_set :: "'k \<Rightarrow> 'v \<Rightarrow> ('k \<times> 'v) list \<Rightarrow> ('k \<times> 'v) list" where
  "dict_set k v [] = [(k, v)]"
| "dict_set k v ((k', v') # d) =
     (if k' = k then (k, v) # d else (k', v') # dict_set k v d)"

text \<open>
  What a collaborator can raise: an instance of \<open>Exception\<close>, which is what every
  \<open>except Exception\<close> handler of the source catches. (Signals outside that hierarchy, such
  as \<open>KeyboardInterrupt\<close>, are not failures of a collaborator and are not modelled.)
\<close>

datatype py_exn = PyException pystr

section \<open>scenario\_manager.py: stages\<close>

text \<open>
  \<open>class ScenarioStage(Enum)\<close>. The manager never passes the enum members around, only
  their \<open>.value\<close> strings, which are also what is stored in the JSON file.
\<close>

datatype ScenarioStage = OVERVIEW | EPISODES | NPCS | HINTS | DUNGEONS | COMPLETED

fun stage_value :: "ScenarioStage \<Rightarrow> pystr" where
  "stage_value OVERVIEW = [44060, 50836]"                 \<comment> \<open>"\uac1c\uc694"\<close>
| "stage_value EPISODES = [50640, 54588, 49548, 46300]"   \<comment> \<open>"\uc5d0\ud53c\uc18c\ub4dc"\<close>
| "stage_value NPCS = [78, 80, 67]"                       \<comment> \<open>"NPC"\<close>
| "stage_value HINTS = [55180, 53944]"                    \<comment> \<open>"\ud78c\ud2b8"\<close>
| "stage_value DUNGEONS = [45912, 51204]"                 \<comment> \<open>"\ub358\uc804"\<close>
| "stage_value COMPLETED = [50756, 47308]"                \<comment> \<open>"\uc644\ub8cc"\<close>

text \<open>
  \<open>get_next_stage\<close>: a dict literal \<open>stage_flow\<close> with five entries, read with
  \<open>stage_flow.get(current_stage, ScenarioStage.COMPLETED.value)\<close>. The argument is any
  string; a key that is not in the table (the terminal stage included) yields the default.
\<close>

definition stage_flow :: "(pystr \<times> pystr) list" where
  "stage_flow =
     [(stage_value OVERVIEW, stage_value EPISODES),
      (stage_value EPISODES, stage_value NPCS),
      (stage_value NPCS, stage_value HINTS),
      (stage_value HINTS, stage_value DUNGEONS),
      (stage_value DUNGEONS, stage_value COMPLETED)]"

definition get_next_stage :: "pystr \<Rightarrow> pystr" where
  "get_next_stage current_stage =
     (case map_of stage_flow current_stage of
        Some nxt \<Rightarrow> nxt
      | None \<Rightarrow> stage_value COMPLETED)"

section \<open>scenario\_manager.py: the stored record\<close>

text \<open>
  The dict built by \<open>init_scenario_creation\<close>, with its keys as fields.
  \<open>last_updated\<close> is the key that \<open>save_scenario\<close> adds. Every record that the
  manager writes has all of these keys, so the defaults of the reads
  (\<open>.get("scenario", {})\<close>, \<open>.get("hints", [])\<close> and the like) never apply. The
  overview and the payloads of the lists are dicts with whatever keys and JSON values the
  caller supplied.
\<close>

record scenario_body =
  title :: json
  overview :: pydict
  episodes :: "pydict list"
  npcs :: "pydict list"
  hints :: "pydict list"
  dungeons :: "pydict list"
  sessions :: "json list"

record scenario_data =
  user_id :: pystr
  created_at :: pystr
  current_stage :: pystr
  progress :: pystr
  scenario :: scenario_body
  last_updated :: "pystr option"

text \<open>
  One file per user, \<open>scenarios/scenario_{user_id}.json\<close>; the path is injective in the
  text of the user id, so the store is keyed by that text. A file either parses to a
  record or does not (a write that failed half way leaves such a file).
\<close>

datatype scenario_file = Unparsable | Stored scenario_data

type_synonym scenario_store = "pystr \<Rightarrow> scenario_file option"

text \<open>
  \<open>load_scenario\<close>: \<open>None\<close> when the file does not exist, and \<open>None\<close> again when
  \<open>json.load\<close> raises (the handler logs and returns \<open>None\<close>).
\<close>

definition load_scenario :: "scenario_store \<Rightarrow> pystr \<Rightarrow> scenario_data option" where
  "load_scenario st uid =
     (case st uid of
        None \<Rightarrow> None
      | Some Unparsable \<Rightarrow> None
      | Some (Stored scenario_data) \<Rightarrow> Some scenario_data)"

text \<open>
  What the operating system does with the write in \<open>save_scenario\<close>:
  \<open>open(file_path, 'w')\<close> may raise (nothing is written), \<open>json.dump\<close> may raise after
  the file was truncated (an unparsable file is left), or both succeed.
\<close>

datatype write_outcome = WriteOk | OpenRaises | DumpRaises

text \<open>
  \<open>save_scenario\<close> sets \<open>last_updated\<close> in the caller's dict first (\<open>now\<close> is the
  clock reading), then writes; every exception becomes the result \<open>False\<close>. The result is
  the flag, the store afterwards, and the caller's dict as mutated.
\<close>

definition save_scenario ::
  "scenario_store \<Rightarrow> pystr \<Rightarrow> scenario_data \<Rightarrow> pystr \<Rightarrow> write_outcome
     \<Rightarrow> bool \<times> scenario_store \<times> scenario_data" where
  "save_scenario st uid scenario_data0 now w =
     (let scenario_data = scenario_data0\<lparr>last_updated := Some now\<rparr>
      in case w of
           WriteOk \<Rightarrow> (True, st(uid \<mapsto> Stored scenario_data), scenario_data)
         | OpenRaises \<Rightarrow> (False, st, scenario_data)
         | DumpRaises \<Rightarrow> (False, st(uid \<mapsto> Unparsable), scenario_data))"

definition NOT_STARTED_value :: pystr where
  "NOT_STARTED_value = [49884, 51089, 95, 51204]"   \<comment> \<open>"\uc2dc\uc791_\uc804"\<close>

text \<open>
  \<open>init_scenario_creation\<close>: builds the fresh dict, saves it, returns it. There is no
  look at the store before the write. \<open>now_created\<close> and \<open>now_saved\<close> are the two clock
  readings. The result is the returned dict and the store afterwards.
\<close>

definition fresh_scenario :: "pystr \<Rightarrow> pystr \<Rightarrow> scenario_data" where
  "fresh_scenario uid now_created =
     \<lparr> user_id = uid,
       created_at = now_created,
       current_stage = stage_value OVERVIEW,
       progress = NOT_STARTED_value,
       scenario = \<lparr> title = JStr [],
                    overview = [(ascii ''theme'', JStr []),
                                (ascii ''setting'', JStr []),
                                (ascii ''main_conflict'', JStr []),
                                (ascii ''objective'', JStr []),
                                (ascii ''rewards'', JStr [])],
                    episodes = [],
                    npcs = [],
                    hints = [],
                    dungeons = [],
                    sessions = [] \<rparr>,
       last_updated = None \<rparr>"

definition init_scenario_creation ::
  "scenario_store \<Rightarrow> pystr \<Rightarrow> pystr \<Rightarrow> pystr \<Rightarrow> write_outcome
     \<Rightarrow> scenario_data \<times> scenario_store" where
  "init_scenario_creation st uid now_created now_saved w =
     (case save_scenario st uid (fresh_scenario uid now_created) now_saved w of
        (ok, st', scenario_data) \<Rightarrow> (scenario_data, st'))"

definition get_current_stage :: "scenario_store \<Rightarrow> pystr \<Rightarrow> pystr" where
  "get_current_stage st uid =
     (case load_scenario st uid of
        None \<Rightarrow> stage_value OVERVIEW
      | Some scenario_data \<Rightarrow> current_stage scenario_data)"

definition set_current_stage ::
  "scenario_store \<Rightarrow> pystr \<Rightarrow> pystr \<Rightarrow> pystr \<Rightarrow> write_outcome \<Rightarrow> scenario_store" where
  "set_current_stage st uid stage now w =
     (case load_scenario st uid of
        None \<Rightarrow> st
      | Some scenario_data \<Rightarrow>
          fst (snd (save_scenario st uid (scenario_data\<lparr>current_stage := stage\<rparr>) now w)))"

text \<open>
  The NPC subsystem, \<open>npc_manager\<close>: the module object when the import succeeded,
  \<open>None\<close> otherwise. Of the module only \<open>load_npcs(user_id)\<close> is used here: it returns a
  list of NPC dicts or \<open>None\<close>, or raises.
\<close>

type_synonym npc_manager = "pystr \<Rightarrow> py_exn + pydict list option"

text \<open>
  \<open>is_npc_stage_complete\<close>: at least three NPCs in what \<open>npc_manager.load_npcs\<close> returns;
  \<open>False\<close> without the module, on a falsy result and on an exception.
\<close>

definition is_npc_stage_complete :: "npc_manager option \<Rightarrow> pystr \<Rightarrow> bool" where
  "is_npc_stage_complete npc_manager uid =
     (case npc_manager of
        None \<Rightarrow> False
      | Some load_npcs \<Rightarrow>
          (case load_npcs uid of
             Inl e \<Rightarrow> False
           | Inr None \<Rightarrow> False
           | Inr (Some existing_npcs) \<Rightarrow> existing_npcs \<noteq> [] \<and> 3 \<le> length existing_npcs))"

definition is_stage_complete ::
  "npc_manager option \<Rightarrow> scenario_store \<Rightarrow> pystr \<Rightarrow> pystr \<Rightarrow> bool" where
  "is_stage_complete npc_manager st uid stage =
     (case load_scenario st uid of
        None \<Rightarrow> False
      | Some scenario_data \<Rightarrow>
          (let body = scenario scenario_data in
           if stage = stage_value OVERVIEW then
             list_all truthy_opt
               [dict_get (overview body) (ascii ''theme''),
                dict_get (overview body) (ascii ''setting''),
                dict_get (overview body) (ascii ''main_conflict''),
                dict_get (overview body) (ascii ''objective'')]
           else if stage = stage_value EPISODES then 3 \<le> length (episodes body)
           else if stage = stage_value NPCS then
             (if npc_manager \<noteq> None then is_npc_stage_complete npc_manager uid
              else 3 \<le> length (npcs body))
           else if stage = stage_value HINTS then 3 \<le> length (hints body)
           else if stage = stage_value DUNGEONS then 1 \<le> length (dungeons body)
           else False))"

text \<open>
  \<open>add_hint\<close>: nothing happens without a loadable record; otherwise the payload gets
  \<open>id = len(hints) + 1\<close>, is appended, and the record is saved.
\<close>

definition add_hint ::
  "scenario_store \<Rightarrow> pystr \<Rightarrow> pydict \<Rightarrow> pystr \<Rightarrow> write_outcome \<Rightarrow> scenario_store" where
  "add_hint st uid hint_data0 now w =
     (case load_scenario st uid of
        None \<Rightarrow> st
      | Some scenario_data \<Rightarrow>
          (let body = scenario scenario_data;
               hint_data = dict_set (ascii ''id'') (JInt (int (length (hints body)) + 1)) hint_data0;
               body' = body\<lparr>hints := hints body @ [hint_data]\<rparr>
           in fst (snd (save_scenario st uid (scenario_data\<lparr>scenario := body'\<rparr>) now w))))"

section \<open>Example inputs for the scenario manager\<close>

definition ex_user :: pystr where "ex_user = ascii ''7''"
definition ex_time :: pystr where "ex_time = ascii ''2025-01-01 00:00:00''"

definition C3_record :: scenario_data where
  "C3_record = (fresh_scenario ex_user ex_time)
      \<lparr>current_stage := stage_value EPISODES, last_updated := Some ex_time\<rparr>"

definition C3_store :: scenario_store where
  "C3_store = (\<lambda>u. None)(ex_user \<mapsto> Stored C3_record)"

definition three_hints ::
  "scenario_store \<Rightarrow> pystr \<Rightarrow> pystr \<Rightarrow> pystr
     \<Rightarrow> pydict \<Rightarrow> pystr \<Rightarrow> pydict \<Rightarrow> pystr \<Rightarrow> pydict \<Rightarrow> pystr \<Rightarrow> scenario_store" where
  "three_hints st uid t0 t0' h1 t1 h2 t2 h3 t3 =
     add_hint
       (add_hint
          (add_hint (snd (init_scenario_creation st uid t0 t0' WriteOk)) uid h1 t1 WriteOk)
          uid h2 t2 WriteOk)
       uid h3 t3 WriteOk"

definition C4_record :: scenario_data where
  "C4_record =
     \<lparr> user_id = ex_user, created_at = ex_time, current_stage = stage_value OVERVIEW,
       progress = NOT_STARTED_value,
       scenario = \<lparr> title = JStr [],
                    overview = [(ascii ''theme'', JStr (ascii ''mystery'')),
                                (ascii ''setting'', JStr (ascii ''village'')),
                                (ascii ''main_conflict'', JStr (ascii ''disappearance'')),
                                (ascii ''objective'', JStr (ascii ''solve the case'')),
                                (ascii ''rewards'', JStr [])],
                    episodes = [], npcs = [], hints = [], dungeons = [], sessions = [] \<rparr>,
       last_updated = Some ex_time \<rparr>"

definition C4_store :: scenario_store where
  "C4_store = (\<lambda>u. None)(ex_user \<mapsto> Stored C4_record)"

definition C2_npc :: pydict where
  "C2_npc = [(ascii ''name'', JStr (ascii ''Mira''))]"

definition C2_manager :: npc_manager where
  "C2_manager = (\<lambda>u. Inr (Some [C2_npc, C2_npc, C2_npc]))"

definition C2_record :: scenario_data where
  "C2_record = (fresh_scenario ex_user ex_time)\<lparr>last_updated := Some ex_time\<rparr>"

definition C2_store :: scenario_store where
  "C2_store = (\<lambda>u. None)(ex_user \<mapsto> Stored C2_record)"

section \<open>message\_processor.py: bounding the context\<close>

text \<open>\<open>kw in s\<close> on strings: \<open>kw\<close> occurs in \<open>s\<close> as a contiguous run.\<close>

fun starts_with :: "'a list \<Rightarrow> 'a list \<Rightarrow> bool" where
  "starts_with s [] = True"
| "starts_with [] (k # ks) = False"
| "starts_with (c # s) (k # ks) = (c = k \<and> starts_with s ks)"

fun contains :: "'a list \<Rightarrow> 'a list \<Rightarrow> bool" where
  "contains [] kw = (kw = [])"
| "contains (c # s) kw = (starts_with (c # s) kw \<or> contains s kw)"

text \<open>
  The slices \<open>s[i:]\<close> and \<open>s[:j]\<close>. A negative index counts from the end and is clipped
  at the start of the sequence; \<open>s[-0:]\<close> is \<open>s[0:]\<close>, the whole sequence.
\<close>

definition slice_from :: "int \<Rightarrow> 'a list \<Rightarrow> 'a list" where
  "slice_from i s = (if i < 0 then drop (nat (int (length s) + i)) s else drop (nat i) s)"

definition slice_to :: "int \<Rightarrow> 'a list \<Rightarrow> 'a list" where
  "slice_to j s = (if j < 0 then take (nat (int (length s) + j)) s else take (nat j) s)"

text \<open>The two elision markers, \<^verbatim>\<open>...(\uc774\uc804 \ub0b4\uc6a9 \uc0dd\ub7b5)...\n\<close> and \<^verbatim>\<open>\n...(\uc774\ud6c4 \ub0b4\uc6a9 \uc0dd\ub7b5)...\<close>.\<close>

definition marker_before :: pystr where
  "marker_before =
     [46, 46, 46, 40, 51060, 51204, 32, 45236, 50857, 32, 49373, 47029, 41, 46, 46,
      46, 10]"

definition marker_after :: pystr where
  "marker_after =
     [10, 46, 46, 46, 40, 51060, 54980, 32, 45236, 50857, 32, 49373, 47029, 41, 46,
      46, 46]"

definition truncate_text_safely :: "pystr \<Rightarrow> int \<Rightarrow> bool \<Rightarrow> pystr" where
  "truncate_text_safely text max_length preserve_end =
     (if int (length text) \<le> max_length then text
      else if preserve_end then marker_before @ slice_from (- max_length) text
      else slice_to max_length text @ marker_after)"

text \<open>\<open>check_context_size(...)["total_length"]\<close> and \<open>["is_oversized"]\<close>.\<close>

definition total_length :: "pystr list \<Rightarrow> int" where
  "total_length context_parts = sum_list (map (\<lambda>part. int (length part)) context_parts)"

definition is_oversized :: "pystr list \<Rightarrow> int \<Rightarrow> bool" where
  "is_oversized context_parts max_total_length =
     (total_length context_parts > max_total_length)"

text \<open>
  \<open>priority_keywords\<close>: keyword and share. The shares are the float literals
  0.3, 0.25, 0.2, 0.15 and 0.1, kept as hundredths. The allocation
  \<open>int(max_total_length * ratio)\<close> is a floating-point product, truncated; it enters the
  model as the parameter \<open>scale\<close>, a function of the budget and the share.
  The keywords, in order: \<^verbatim>\<open>\ud50c\ub808\uc774\uc5b4 \uce90\ub9ad\ud130 \uc815\ubcf4\<close>, \<^verbatim>\<open>\uc2dc\ub098\ub9ac\uc624\<close>,
  \<^verbatim>\<open>\uc0c1\ud669 \uc694\uc57d\<close>, \<^verbatim>\<open>\uc124\uc815\<close>, \<^verbatim>\<open>\uc138\uc158 \uc548\ub0b4\<close>.
\<close>

definition priority_keywords :: "(pystr \<times> nat) list" where
  "priority_keywords =
     [([54540, 47112, 51060, 50612, 32, 52880, 47533, 53552, 32, 51221, 48372], 30),
      ([49884, 45208, 47532, 50724], 25),
      ([49345, 54889, 32, 50836, 50557], 20),
      ([49444, 51221], 15),
      ([49464, 49496, 32, 50504, 45236], 10)]"

text \<open>
  The allocation of one block: \<open>max_total_length // len(context_parts)\<close>, replaced by the
  share of the first priority keyword that occurs in the block.
\<close>

definition allocated_length ::
  "(int \<Rightarrow> nat \<Rightarrow> int) \<Rightarrow> int \<Rightarrow> nat \<Rightarrow> pystr \<Rightarrow> int" where
  "allocated_length scale max_total_length n part_str =
     (case find (\<lambda>(keyword, ratio). contains part_str keyword) priority_keywords of
        Some (keyword, ratio) \<Rightarrow> scale max_total_length ratio
      | None \<Rightarrow> max_total_length div int n)"

text \<open>
  Which end is kept: the tail for blocks that hold \<^verbatim>\<open>\ub300\ud654 \ub0b4\uc6a9\<close> or
  \<^verbatim>\<open>\uc0c1\ud669 \uc694\uc57d\<close>.
\<close>

definition keeps_end :: "pystr \<Rightarrow> bool" where
  "keeps_end part_str =
     (contains part_str [45824, 54868, 32, 45236, 50857]
      \<or> contains part_str [49345, 54889, 32, 50836, 50557])"

text \<open>
  The loop of \<open>optimize_context_parts\<close>, with \<open>remaining_length\<close> as its state. Each
  emitted block is paired with a flag: whether it went through
  \<open>truncate_text_safely\<close> (the branch that logs the reduction). \<open>break\<close> ends the loop,
  so nothing after a block that finds \<open>remaining_length <= 0\<close> is emitted.
\<close>

fun optimize_loop ::
  "(int \<Rightarrow> nat \<Rightarrow> int) \<Rightarrow> int \<Rightarrow> nat \<Rightarrow> pystr list \<Rightarrow> int \<Rightarrow> (pystr \<times> bool) list" where
  "optimize_loop scale max_total_length n [] remaining_length = []"
| "optimize_loop scale max_total_length n (part_str # rest) remaining_length =
     (if remaining_length \<le> 0 then []
      else
        let allocated = allocated_length scale max_total_length n part_str;
            actual_length = min allocated (min remaining_length (int (length part_str)));
            truncated = (int (length part_str) > actual_length);
            out = (if truncated
                   then truncate_text_safely part_str actual_length (keeps_end part_str)
                   else part_str)
        in (out, truncated)
           # optimize_loop scale max_total_length n rest (remaining_length - int (length out)))"

definition optimize_trace ::
  "(int \<Rightarrow> nat \<Rightarrow> int) \<Rightarrow> pystr list \<Rightarrow> int \<Rightarrow> (pystr \<times> bool) list" where
  "optimize_trace scale context_parts max_total_length =
     (if context_parts = [] then []
      else if \<not> is_oversized context_parts max_total_length
      then map (\<lambda>part. (part, False)) context_parts
      else optimize_loop scale max_total_length (length context_parts) context_parts
             max_total_length)"

definition optimize_context_parts ::
  "(int \<Rightarrow> nat \<Rightarrow> int) \<Rightarrow> pystr list \<Rightarrow> int \<Rightarrow> pystr list" where
  "optimize_context_parts scale context_parts max_total_length =
     map fst (optimize_trace scale context_parts max_total_length)"

text \<open>The number of blocks that were truncated in a call.\<close>

definition truncated_blocks :: "(int \<Rightarrow> nat \<Rightarrow> int) \<Rightarrow> pystr list \<Rightarrow> int \<Rightarrow> nat" where
  "truncated_blocks scale context_parts max_total_length =
     length (filter snd (optimize_trace scale context_parts max_total_length))"

text \<open>The exact share, for running the model: \<open>floor(budget * hundredths / 100)\<close>.\<close>

definition exact_scale :: "int \<Rightarrow> nat \<Rightarrow> int" where
  "exact_scale max_total_length ratio = (max_total_length * int ratio) div 100"

text \<open>
  An input with a budget smaller than the number of blocks: two blocks, budget 1. The
  first block, \<^verbatim>\<open>\ub300\ud654 \ub0b4\uc6a9: hello\<close>, holds the phrase that selects tail-keeping and
  no priority keyword.
\<close>

definition C5_block :: pystr where
  "C5_block = [45824, 54868, 32, 45236, 50857] @ ascii '': hello''"

definition C5_parts :: "pystr list" where
  "C5_parts = [C5_block, ascii ''x'']"

section \<open>message\_processor.py: repetition\<close>

text \<open>
  What the functions below take from the Python runtime, as parameters:
  \<open>str.lower\<close>; the regular-expression classes \<^verbatim>\<open>\s\<close> (whitespace) and \<^verbatim>\<open>\d\<close>
  (decimal digits, each with its value), which on \<open>str\<close> patterns follow Unicode and
  are disjoint; and the limit on the number of digits that \<open>int\<close> accepts
  (\<open>sys.int_max_str_digits\<close>, absent in older versions).
\<close>

record py_runtime =
  str_lower :: "pystr \<Rightarrow> pystr"
  re_space :: "nat \<Rightarrow> bool"
  re_digit :: "nat \<Rightarrow> nat option"
  int_max_str_digits :: "nat option"

text \<open>\<^verbatim>\<open>"\n".join(xs)\<close>.\<close>

fun join_nl :: "pystr list \<Rightarrow> pystr" where
  "join_nl [] = []"
| "join_nl [x] = x"
| "join_nl (x # y # r) = x @ [10] @ join_nl (y # r)"

text \<open>
  \<open>s.count(sub)\<close>: the number of non-overlapping occurrences, found from left to right;
  after an occurrence the search goes on behind it. For the empty \<open>sub\<close> Python counts
  \<open>len(s) + 1\<close>.
\<close>

function count_from :: "pystr \<Rightarrow> pystr \<Rightarrow> nat" where
  "count_from sub s =
     (if sub = [] \<or> s = [] then 0
      else if starts_with s sub then Suc (count_from sub (drop (length sub) s))
      else count_from sub (tl s))"
  by pat_completeness auto
termination
  by (relation "measure (\<lambda>(sub, s). length s)") auto

declare count_from.simps [simp del]

definition py_count :: "pystr \<Rightarrow> pystr \<Rightarrow> nat" where
  "py_count s sub = (if sub = [] then length s + 1 else count_from sub s)"

text \<open>
  For comparison, the plain reading of ``\<open>sub\<close> occurs \<open>n\<close> times in \<open>s\<close>'': the number of
  positions of \<open>s\<close> at which \<open>sub\<close> starts, overlapping or not.
\<close>

fun occurrences :: "pystr \<Rightarrow> pystr \<Rightarrow> nat" where
  "occurrences sub [] = 0"
| "occurrences sub (c # s) = (if starts_with (c # s) sub then 1 else 0) + occurrences sub s"

text \<open>
  \<open>repetitive_keywords\<close>, in source order:
  \<^verbatim>\<open>\uc9c0\ud558\uc2e4\<close>, \<^verbatim>\<open>\ub048\uc801\<close>, \<^verbatim>\<open>\uc0c1\uc790\<close>, \<^verbatim>\<open>\uc790\ubb3c\uc1e0\<close>,
  \<^verbatim>\<open>\uc1e0\uc0ac\uc2ac\<close>, \<^verbatim>\<open>\ub179\uc2a8\<close>, \<^verbatim>\<open>\uc5b4\ub460\<close>, \<^verbatim>\<open>\uacf0\ud321\uc774\<close>,
  \<^verbatim>\<open>\uc2b5\uae30\<close>, \<^verbatim>\<open>\ubc84\ub824\uc9c4\<close>, \<^verbatim>\<open>\ud3d0\uac00\<close>, \<^verbatim>\<open>\ub358\uc804\<close>,
  \<^verbatim>\<open>\uac19\uc740 \ubc29\<close>, \<^verbatim>\<open>\ub2e4\uc2dc\<close>, \<^verbatim>\<open>\ub610\ub2e4\uc2dc\<close>, \<^verbatim>\<open>\uacc4\uc18d\<close>,
  \<^verbatim>\<open>\ubc18\ubcf5\<close>.
\<close>

definition repetitive_keywords :: "pystr list" where
  "repetitive_keywords =
     [[51648, 54616, 49892], [45128, 51201], [49345, 51088],
      [51088, 47932, 49632], [49632, 49324, 49836], [45433, 49832],
      [50612, 46176], [44272, 54049, 51060], [49845, 44592],
      [48260, 47140, 51652], [54224, 44032], [45912, 51204],
      [44057, 51008, 32, 48169], [45796, 49884], [46608, 45796, 49884],
      [44228, 49549], [48152, 48373]]"

text \<open>
  \<open>x[-n:] if len(x) >= n else x\<close>, and the text that is searched: the last ten turns,
  joined and lower-cased.
\<close>

definition last_turns :: "nat \<Rightarrow> 'a list \<Rightarrow> 'a list" where
  "last_turns n xs = (if n \<le> length xs then slice_from (- int n) xs else xs)"

definition recent_text :: "py_runtime \<Rightarrow> pystr list \<Rightarrow> pystr" where
  "recent_text rt conversation_history =
     str_lower rt (join_nl (last_turns 10 conversation_history))"

text \<open>
  The loop that fills the dict \<open>keyword_count\<close> (an entry only for a positive count), and
  the list comprehension over its items.
\<close>

definition keyword_count :: "pystr \<Rightarrow> pystr list \<Rightarrow> (pystr \<times> nat) list" where
  "keyword_count text keywords =
     foldl (\<lambda>d keyword. let count = py_count text keyword
                         in if count > 0 then dict_set keyword count d else d)
           [] keywords"

definition high_frequency_keywords :: "pystr \<Rightarrow> pystr list" where
  "high_frequency_keywords text =
     map fst (filter (\<lambda>(k, v). v \<ge> 3) (keyword_count text repetitive_keywords))"

text \<open>
  \<^verbatim>\<open>re.findall(r'ROUND\s*(\d+)', text)\<close>, where \<open>ROUND\<close> stands for the three-letter
  word \<^verbatim>\<open>\ub77c\uc6b4\ub4dc\<close>. At a position the pattern matches when the word is followed by any
  whitespace and then at least one digit; the group is the longest run of digits (there is
  nothing to backtrack into, since no character is both whitespace and digit). The scan
  resumes behind a match, and one character further on where there is none.
\<close>

definition ROUND :: pystr where
  "ROUND = [46972, 50868, 46300]"

definition match_round :: "py_runtime \<Rightarrow> pystr \<Rightarrow> (pystr \<times> pystr) option" where
  "match_round rt s =
     (if starts_with s ROUND then
        let after_spaces = dropWhile (re_space rt) (drop (length ROUND) s);
            digits = takeWhile (\<lambda>c. re_digit rt c \<noteq> None) after_spaces
        in if digits = [] then None
           else Some (digits, dropWhile (\<lambda>c. re_digit rt c \<noteq> None) after_spaces)
      else None)"

function findall_rounds :: "py_runtime \<Rightarrow> pystr \<Rightarrow> pystr list" where
  "findall_rounds rt s =
     (if s = [] then []
      else case match_round rt s of
             Some (digits, rest) \<Rightarrow> digits # findall_rounds rt rest
           | None \<Rightarrow> findall_rounds rt (tl s))"
  by pat_completeness auto
termination
proof -
  have shorter: "length rest < length s"
    if m: "match_round rt s = Some (digits, rest)" for rt s digits rest
  proof -
    let ?a = "dropWhile (re_space rt) (drop (length ROUND) s)"
    from m have sw: "starts_with s ROUND"
      by (simp add: match_round_def split: if_splits)
    then have ne: "s \<noteq> []"
      by (cases s) (simp_all add: ROUND_def)
    from m sw have "rest = dropWhile (\<lambda>c. re_digit rt c \<noteq> None) ?a"
      by (simp add: match_round_def Let_def split: if_splits)
    then have "length rest \<le> length ?a"
      by (simp add: length_dropWhile_le)
    also have "\<dots> \<le> length (drop (length ROUND) s)"
      by (rule length_dropWhile_le)
    also have "\<dots> < length s"
      using ne by (simp add: ROUND_def)
    finally show ?thesis .
  qed
  show ?thesis
    by (relation "measure (\<lambda>(rt, s). length s)") (auto simp add: shorter)
qed

declare findall_rounds.simps [simp del]

text \<open>
  \<open>int(r)\<close> on a run of digits: the decimal value, or \<open>ValueError\<close> when the run is
  longer than the runtime's limit.
\<close>

definition digits_value :: "py_runtime \<Rightarrow> pystr \<Rightarrow> int" where
  "digits_value rt r =
     foldl (\<lambda>acc c. 10 * acc + int (case re_digit rt c of Some d \<Rightarrow> d | None \<Rightarrow> 0)) 0 r"

definition py_int :: "py_runtime \<Rightarrow> pystr \<Rightarrow> py_exn + int" where
  "py_int rt r =
     (case int_max_str_digits rt of
        None \<Rightarrow> Inr (digits_value rt r)
      | Some limit \<Rightarrow>
          if limit < length r then Inl (PyException (ascii ''ValueError''))
          else Inr (digits_value rt r))"

text \<open>\<open>max(int(r) for r in round_matches)\<close>, on a list that is not empty.\<close>

fun max_int_of :: "py_runtime \<Rightarrow> pystr list \<Rightarrow> py_exn + int" where
  "max_int_of rt [] = Inl (PyException (ascii ''ValueError''))"
| "max_int_of rt [r] = py_int rt r"
| "max_int_of rt (r # r' # rs) =
     (case py_int rt r of
        Inl e \<Rightarrow> Inl e
      | Inr n \<Rightarrow> (case max_int_of rt (r' # rs) of
                   Inl e \<Rightarrow> Inl e
                 | Inr m \<Rightarrow> Inr (max n m)))"

text \<open>
  \<open>check_repetitive_situation_in_context\<close>. The body sits in \<open>try\<close>; the handler
  returns \<open>False\<close>. \<open>EPISODE\<close> is \<^verbatim>\<open>\uc5d0\ud53c\uc18c\ub4dc\<close>.
\<close>

definition EPISODE :: pystr where
  "EPISODE = [50640, 54588, 49548, 46300]"

definition check_repetitive_situation_in_context ::
  "py_runtime \<Rightarrow> pystr \<Rightarrow> pystr list \<Rightarrow> bool" where
  "check_repetitive_situation_in_context rt scenario_context conversation_history =
     (let text = recent_text rt conversation_history in
      if high_frequency_keywords text \<noteq> [] then True
      else if contains scenario_context EPISODE then
        (if contains text ROUND then
           (let round_matches = findall_rounds rt text in
            if round_matches \<noteq> [] then
              (case max_int_of rt round_matches of
                 Inl e \<Rightarrow> False
               | Inr latest_round \<Rightarrow> if latest_round \<ge> 5 then True else False)
            else False)
         else False)
      else False)"

text \<open>
  A runtime for running the model on texts made of ASCII and Hangul, where it agrees with
  Python: lower-casing changes A to Z only, whitespace is tab, line feed, vertical tab,
  form feed, carriage return and space, and the digits are 0 to 9.
\<close>

definition ascii_runtime :: py_runtime where
  "ascii_runtime =
     \<lparr> str_lower = map (\<lambda>c. if 65 \<le> c \<and> c \<le> 90 then c + 32 else c),
       re_space = (\<lambda>c. c \<in> {9, 10, 11, 12, 13, 32}),
       re_digit = (\<lambda>c. if 48 \<le> c \<and> c \<le> 57 then Some (c - 48) else None),
       int_max_str_digits = Some 4300 \<rparr>"

text \<open>
  Two conversations: three turns that each say \<^verbatim>\<open>\ubc18\ubcf5\<close>, and one turn
  \<^verbatim>\<open>\ub77c\uc6b4\ub4dc 3\<close> under a scenario context \<^verbatim>\<open>\uc5d0\ud53c\uc18c\ub4dc 1\<close>.
\<close>

definition C8_repeating :: "pystr list" where
  "C8_repeating = [[48152, 48373], [48152, 48373], [48152, 48373]]"

definition C8_round_three :: "pystr list" where
  "C8_round_three = [[46972, 50868, 46300, 32, 51]]"

definition C8_context :: pystr where
  "C8_context = [50640, 54588, 49548, 46300, 32, 49]"

section \<open>message\_processor.py: session completion\<close>

text \<open>
  \<open>completion_keywords\<close>: session type and its phrases. The session types are
  \<^verbatim>\<open>\uc2dc\ub098\ub9ac\uc624_\uc0dd\uc131\<close>,
  \<^verbatim>\<open>\ubaa8\ud5d8_\uc0dd\uc131\<close>,
  \<^verbatim>\<open>\ub358\uc804_\uc0dd\uc131\<close>,
  \<^verbatim>\<open>\ud30c\ud2f0_\uc0dd\uc131\<close>,
  \<^verbatim>\<open>\ud30c\ud2f0_\uacb0\uc131\<close>,
  \<^verbatim>\<open>\ubaa8\ud5d8_\uc900\ube44\<close>.
  The phrases, row by row:
  \<^verbatim>\<open>\uc2dc\ub098\ub9ac\uc624 \uc644\uc131\<close>,
  \<^verbatim>\<open>\uc2dc\ub098\ub9ac\uc624 \ud655\uc815\<close>,
  \<^verbatim>\<open>\uc774\uc81c \ubaa8\ud5d8\<close>,
  \<^verbatim>\<open>\ubaa8\ud5d8\uc73c\ub85c \ub118\uc5b4\<close>,
  \<^verbatim>\<open>\ubaa8\ud5d8 \uc0dd\uc131\<close>,
  \<^verbatim>\<open>\ub2e4\uc74c\<close>,
  \<^verbatim>\<open>\uc644\ub8cc\<close>;
  \<^verbatim>\<open>\ubaa8\ud5d8 \uc644\uc131\<close>,
  \<^verbatim>\<open>\ubaa8\ud5d8 \ud655\uc815\<close>,
  \<^verbatim>\<open>\ub358\uc804\uc73c\ub85c\<close>,
  \<^verbatim>\<open>\ub358\uc804 \uc0dd\uc131\<close>,
  \<^verbatim>\<open>\ud30c\ud2f0 \uacb0\uc131\<close>,
  \<^verbatim>\<open>\ub2e4\uc74c\<close>,
  \<^verbatim>\<open>\uc644\ub8cc\<close>;
  \<^verbatim>\<open>\ub358\uc804 \uc644\uc131\<close>,
  \<^verbatim>\<open>\ub358\uc804 \ud655\uc815\<close>,
  \<^verbatim>\<open>\ud30c\ud2f0\ub85c\<close>,
  \<^verbatim>\<open>\ud30c\ud2f0 \uacb0\uc131\<close>,
  \<^verbatim>\<open>\ubaa8\ud5d8 \uc2dc\uc791\<close>,
  \<^verbatim>\<open>\ub2e4\uc74c\<close>,
  \<^verbatim>\<open>\uc644\ub8cc\<close>;
  \<^verbatim>\<open>\ud30c\ud2f0 \uc644\uc131\<close>,
  \<^verbatim>\<open>\ud30c\ud2f0 \ud655\uc815\<close>,
  \<^verbatim>\<open>\ubaa8\ud5d8 \uc900\ube44\<close>,
  \<^verbatim>\<open>\uc900\ube44 \uc2dc\uc791\<close>,
  \<^verbatim>\<open>\ub2e4\uc74c\<close>,
  \<^verbatim>\<open>\uc644\ub8cc\<close>;
  \<^verbatim>\<open>\uacb0\uc131 \uc644\ub8cc\<close>,
  \<^verbatim>\<open>\ud30c\ud2f0 \uc644\uc131\<close>,
  \<^verbatim>\<open>\ubaa8\ud5d8 \uc900\ube44\<close>,
  \<^verbatim>\<open>\uc900\ube44 \uc2dc\uc791\<close>,
  \<^verbatim>\<open>\ub2e4\uc74c\<close>,
  \<^verbatim>\<open>\uc644\ub8cc\<close>;
  \<^verbatim>\<open>\uc900\ube44 \uc644\ub8cc\<close>,
  \<^verbatim>\<open>\uc900\ube44 \ub05d\<close>,
  \<^verbatim>\<open>\ubaa8\ud5d8 \uc2dc\uc791\<close>,
  \<^verbatim>\<open>\ucd9c\ubc1c\<close>,
  \<^verbatim>\<open>\ub2e4\uc74c\<close>,
  \<^verbatim>\<open>\uc644\ub8cc\<close>.
\<close>

definition completion_keywords :: "(pystr \<times> pystr list) list" where
  "completion_keywords =
     [([49884, 45208, 47532, 50724, 95, 49373, 49457],
       [[49884, 45208, 47532, 50724, 32, 50756, 49457],
        [49884, 45208, 47532, 50724, 32, 54869, 51221],
        [51060, 51228, 32, 47784, 54744],
        [47784, 54744, 51004, 47196, 32, 45336, 50612],
        [47784, 54744, 32, 49373, 49457],
        [45796, 51020],
        [50756, 47308]]),
      ([47784, 54744, 95, 49373, 49457],
       [[47784, 54744, 32, 50756, 49457],
        [47784, 54744, 32, 54869, 51221],
        [45912, 51204, 51004, 47196],
        [45912, 51204, 32, 49373, 49457],
        [54028, 54000, 32, 44208, 49457],
        [45796, 51020],
        [50756, 47308]]),
      ([45912, 51204, 95, 49373, 49457],
       [[45912, 51204, 32, 50756, 49457],
        [45912, 51204, 32, 54869, 51221],
        [54028, 54000, 47196],
        [54028, 54000, 32, 44208, 49457],
        [47784, 54744, 32, 49884, 51089],
        [45796, 51020],
        [50756, 47308]]),
      ([54028, 54000, 95, 49373, 49457],
       [[54028, 54000, 32, 50756, 49457],
        [54028, 54000, 32, 54869, 51221],
        [47784, 54744, 32, 51456, 48708],
        [51456, 48708, 32, 49884, 51089],
        [45796, 51020],
        [50756, 47308]]),
      ([54028, 54000, 95, 44208, 49457],
       [[44208, 49457, 32, 50756, 47308],
        [54028, 54000, 32, 50756, 49457],
        [47784, 54744, 32, 51456, 48708],
        [51456, 48708, 32, 49884, 51089],
        [45796, 51020],
        [50756, 47308]]),
      ([47784, 54744, 95, 51456, 48708],
       [[51456, 48708, 32, 50756, 47308],
        [51456, 48708, 32, 45149],
        [47784, 54744, 32, 49884, 51089],
        [52636, 48156],
        [45796, 51020],
        [50756, 47308]])]"

text \<open>
  \<open>session_descriptions\<close>: the same six session types, each with a sentence that goes
  into the prompt:
  \<^verbatim>\<open>\uc2dc\ub098\ub9ac\uc624\uc758 \uc8fc\uc694 \uac08\ub4f1, \ud575\uc2ec NPC, \ubc30\uacbd \uc124\uc815, \ubaa9\ud45c\uac00 \ucda9\ubd84\ud788 \uc815\ud574\uc84c\ub294\uc9c0\<close>,
  \<^verbatim>\<open>\ubaa8\ud5d8\uc758 \uc2dc\uc791\uc810, \ub2e8\uc11c, \uc911\uc694 \uc7a5\uc18c, \uc608\uc0c1 \uc0ac\uac74\ub4e4\uc774 \ucda9\ubd84\ud788 \uacc4\ud68d\ub418\uc5c8\ub294\uc9c0\<close>,
  \<^verbatim>\<open>\ub358\uc804\uc758 \uc720\ud615, \uad6c\uc870, \uc8fc\uc694 \ubc29\ub4e4, \ud568\uc815\uacfc \uad34\ubb3c\ub4e4\uc774 \ucda9\ubd84\ud788 \uc124\uacc4\ub418\uc5c8\ub294\uc9c0\<close>,
  \<^verbatim>\<open>\ud30c\ud2f0 \uad6c\uc131\uc6d0\ub4e4\uacfc \uadf8\ub4e4\uc758 \uc5ed\ud560, \uad00\uacc4\uac00 \ucda9\ubd84\ud788 \uc815\ud574\uc84c\ub294\uc9c0\<close>,
  \<^verbatim>\<open>\ud30c\ud2f0 \uacb0\uc131 \uacfc\uc815\uacfc \ud300\uc6cc\ud06c\uac00 \ucda9\ubd84\ud788 \ub17c\uc758\ub418\uc5c8\ub294\uc9c0\<close>,
  \<^verbatim>\<open>\ubaa8\ud5d8\uc744 \uc704\ud55c \uc7a5\ube44, \uacc4\ud68d, \uc5ed\ud560 \ubd84\ub2f4\uc774 \ucda9\ubd84\ud788 \uc900\ube44\ub418\uc5c8\ub294\uc9c0\<close>.
\<close>

definition session_descriptions :: "(pystr \<times> pystr) list" where
  "session_descriptions =
     [([49884, 45208, 47532, 50724, 95, 49373, 49457],
       [49884, 45208, 47532, 50724, 51032, 32, 51452, 50836, 32, 44040, 46321, 44, 32,
        54645, 49900, 32, 78, 80, 67, 44, 32, 48176, 44221, 32, 49444, 51221, 44, 32,
        47785, 54364, 44032, 32, 52649, 48516, 55176, 32, 51221, 54644, 51276, 45716,
        51648]),
      ([47784, 54744, 95, 49373, 49457],
       [47784, 54744, 51032, 32, 49884, 51089, 51216, 44, 32, 45800, 49436, 44, 32,
        51473, 50836, 32, 51109, 49548, 44, 32, 50696, 49345, 32, 49324, 44148, 46308,
        51060, 32, 52649, 48516, 55176, 32, 44228, 54925, 46104, 50632, 45716, 51648]),
      ([45912, 51204, 95, 49373, 49457],
       [45912, 51204, 51032, 32, 50976, 54805, 44, 32, 44396, 51312, 44, 32, 51452,
        50836, 32, 48169, 46308, 44, 32, 54632, 51221, 44284, 32, 44340, 47932, 46308,
        51060, 32, 52649, 48516, 55176, 32, 49444, 44228, 46104, 50632, 45716, 51648]),
      ([54028, 54000, 95, 49373, 49457],
       [54028, 54000, 32, 44396, 49457, 50896, 46308, 44284, 32, 44536, 46308, 51032,
        32, 50669, 54624, 44, 32, 44288, 44228, 44032, 32, 52649, 48516, 55176, 32,
        51221, 54644, 51276, 45716, 51648]),
      ([54028, 54000, 95, 44208, 49457],
       [54028, 54000, 32, 44208, 49457, 32, 44284, 51221, 44284, 32, 54016, 50892,
        53356, 44032, 32, 52649, 48516, 55176, 32, 45436, 51032, 46104, 50632, 45716,
        51648]),
      ([47784, 54744, 95, 51456, 48708],
       [47784, 54744, 51012, 32, 50948, 54620, 32, 51109, 48708, 44, 32, 44228, 54925,
        44, 32, 50669, 54624, 32, 48516, 45812, 51060, 32, 52649, 48516, 55176, 32,
        51456, 48708, 46104, 50632, 45716, 51648])]"

text \<open>
  The f-string \<open>completion_prompt\<close>. Its fixed pieces, in order:
  \<^verbatim>\<open>\n\ub2e4\uc74c \ub300\ud654\ub97c \ubcf4\uace0 \ud604\uc7ac \<close>,
  \<^verbatim>\<open> \uc138\uc158\uc774 \uc644\ub8cc\ub418\uc5c8\ub294\uc9c0 \ud310\ub2e8\ud574\uc8fc\uc138\uc694.\n\n\uc138\uc158 \uc644\ub8cc \uae30\uc900: \<close>,
  \<^verbatim>\<open>\n\n\ucd5c\uadfc \ub300\ud654:\n\<close>,
  \<^verbatim>\<open>\n\n\uc0ac\uc6a9\uc790\uc758 \ub9c8\uc9c0\ub9c9 \uba54\uc2dc\uc9c0: \<close>,
  \<^verbatim>\<open>\n\n\uc704 \ub300\ud654\ub97c \ubcf4\uc558\uc744 \ub54c \<close>,
  \<^verbatim>\<open> \uc138\uc158\uc774 \uc644\ub8cc\ub418\uc5c8\ub2e4\uace0 \ud310\ub2e8\ub418\uba74 "\uc644\ub8cc"\ub77c\uace0 \ub2f5\ud558\uace0, \n\uc544\uc9c1 \ub354 \ub17c\uc758\uac00 \ud544\uc694\ud558\ub2e4\uba74 "\uc9c4\ud589\uc911"\uc774\ub77c\uace0 \ub2f5\ud574\uc8fc\uc138\uc694.\n\n\ub2f5\ubcc0\uc740 "\uc644\ub8cc" \ub610\ub294 "\uc9c4\ud589\uc911" \uc911 \ud558\ub098\ub9cc \ud574\uc8fc\uc138\uc694.\n\<close>.
\<close>

definition completion_prompt :: "pystr \<Rightarrow> pystr \<Rightarrow> pystr \<Rightarrow> pystr \<Rightarrow> pystr" where
  "completion_prompt session_type description conversation_text text =
     [10, 45796, 51020, 32, 45824, 54868, 47484, 32, 48372, 44256, 32, 54788, 51116,
      32]
     @
     session_type
     @
     [32, 49464, 49496, 51060, 32, 50756, 47308, 46104, 50632, 45716, 51648, 32,
      54032, 45800, 54644, 51452, 49464, 50836, 46, 10, 10, 49464, 49496, 32, 50756,
      47308, 32, 44592, 51456, 58, 32]
     @
     description
     @
     [10, 10, 52572, 44540, 32, 45824, 54868, 58, 10]
     @
     conversation_text
     @
     [10, 10, 49324, 50857, 51088, 51032, 32, 47560, 51648, 47561, 32, 47700, 49884,
      51648, 58, 32]
     @
     text
     @
     [10, 10, 50948, 32, 45824, 54868, 47484, 32, 48372, 50520, 51012, 32, 46412, 32]
     @
     session_type
     @
     [32, 49464, 49496, 51060, 32, 50756, 47308, 46104, 50632, 45796, 44256, 32,
      54032, 45800, 46104, 47732, 32, 34, 50756, 47308, 34, 46972, 44256, 32, 45813,
      54616, 44256, 44, 32, 10, 50500, 51649, 32, 45908, 32, 45436, 51032, 44032, 32,
      54596, 50836, 54616, 45796, 47732, 32, 34, 51652, 54665, 51473, 34, 51060,
      46972, 44256, 32, 45813, 54644, 51452, 49464, 50836, 46, 10, 10, 45813, 48320,
      51008, 32, 34, 50756, 47308, 34, 32, 46608, 45716, 32, 34, 51652, 54665, 51473,
      34, 32, 51473, 32, 54616, 45208, 47564, 32, 54644, 51452, 49464, 50836, 46, 10]"

text \<open>
  The generation backend, \<open>generate_answer_without_rag(prompt, chunks, label, context)\<close>:
  it returns a text or raises. The call here passes no chunks, the label \<^verbatim>\<open>\uae30\ud0c0\<close>
  and an empty context, and looks for \<^verbatim>\<open>\uc644\ub8cc\<close> in the answer.
\<close>

type_synonym backend = "pystr \<Rightarrow> pystr list \<Rightarrow> pystr \<Rightarrow> pystr \<Rightarrow> py_exn + pystr"

definition OTHER_label :: pystr where
  "OTHER_label = [44592, 53440]"

definition DONE_marker :: pystr where
  "DONE_marker = [50756, 47308]"

text \<open>Phase 1: some phrase of the session type occurs in the user's text.\<close>

definition keyword_hit :: "pystr \<Rightarrow> pystr \<Rightarrow> bool" where
  "keyword_hit text session_type =
     (let keywords = (case map_of completion_keywords session_type of
                        Some ks \<Rightarrow> ks
                      | None \<Rightarrow> [])
      in list_ex (\<lambda>keyword. contains text keyword) keywords)"

text \<open>Phase 2: the prompt that is sent, for a session type that has a description.\<close>

definition judge_prompt :: "pystr \<Rightarrow> pystr \<Rightarrow> pystr list \<Rightarrow> pystr option" where
  "judge_prompt text session_type conversation_history =
     (case map_of session_descriptions session_type of
        None \<Rightarrow> None
      | Some description \<Rightarrow>
          let recent_conversation = last_turns 5 conversation_history;
              conversation_text = join_nl recent_conversation
          in Some (completion_prompt session_type description conversation_text text))"

text \<open>
  \<open>extract_session_completion_info\<close>. The result is what the caller gets: a raised
  exception on the left, the returned flag on the right. The backend call is the only
  statement inside \<open>try\<close>; the handler returns \<open>False\<close>.
\<close>

definition extract_session_completion_info ::
  "backend \<Rightarrow> pystr \<Rightarrow> pystr \<Rightarrow> pystr list \<Rightarrow> py_exn + bool" where
  "extract_session_completion_info generate_answer_without_rag text session_type
       conversation_history =
     (if keyword_hit text session_type then Inr True
      else case judge_prompt text session_type conversation_history of
             Some prompt \<Rightarrow>
               (case generate_answer_without_rag prompt [] OTHER_label [] of
                  Inl e \<Rightarrow> Inr False
                | Inr completion_result \<Rightarrow> Inr (contains completion_result DONE_marker))
           | None \<Rightarrow> Inr False)"

text \<open>
  A backend that always raises, and a message of the party-creation session
  (\<^verbatim>\<open>\ud30c\ud2f0_\uc0dd\uc131\<close>) that holds none of its phrases.
\<close>

definition failing_backend :: backend where
  "failing_backend prompt chunks label context = Inl (PyException (ascii ''TimeoutError''))"

definition C9_session :: pystr where
  "C9_session = [54028, 54000, 95, 49373, 49457]"

definition C9_text :: pystr where
  "C9_text = ascii ''hello''"

section \<open>message\_processor.py: saving session data\<close>

text \<open>
  The files under \<open>sessions/\<close>: a path has a complete JSON document, or the beginning of
  one (a write that was cut short), or no file. Directories are not tracked; what
  \<open>os.makedirs\<close> and \<open>os.access\<close> report is part of the outcomes below.
\<close>

datatype file_content = Document json | Partial

type_synonym file_system = "pystr \<Rightarrow> file_content option"

text \<open>
  Whether each operating-system call of \<open>save_session_data\<close> succeeds (\<open>True\<close>) or
  raises: the two \<open>os.makedirs\<close>; \<open>os.access(user_dir, os.W_OK)\<close> (which returns its
  answer); opening the temporary file; \<open>json.dump\<close>, \<open>flush\<close> and \<open>fsync\<close>;
  \<open>os.remove(filepath)\<close>; \<open>os.rename(temp_filepath, filepath)\<close>; re-opening the final
  file; and the \<open>os.remove(temp_filepath)\<close> of the exception handlers.
\<close>

record os_outcomes =
  makedirs_ok :: bool
  access_ok :: bool
  open_temp_ok :: bool
  dump_ok :: bool
  remove_ok :: bool
  rename_ok :: bool
  reopen_ok :: bool
  cleanup_ok :: bool

text \<open>\<open>os.path.join(a, b)\<close> on POSIX, and \<open>s.replace('_', '-')\<close>.\<close>

definition path_join :: "pystr \<Rightarrow> pystr \<Rightarrow> pystr" where
  "path_join a b =
     (if starts_with b (ascii ''/'') then b
      else if a = [] \<or> last a = 47 then a @ b
      else a @ ascii ''/'' @ b)"

definition replace_underscores :: "pystr \<Rightarrow> pystr" where
  "replace_underscores s = map (\<lambda>c. if c = 95 then 45 else c) s"

text \<open>
  \<open>filename_map\<close>, with keys \<^verbatim>\<open>\uc2dc\ub098\ub9ac\uc624_\uc0dd\uc131\<close>, \<^verbatim>\<open>\ubaa8\ud5d8_\uc0dd\uc131\<close>,
  \<^verbatim>\<open>\ub358\uc804_\uc0dd\uc131\<close>, \<^verbatim>\<open>\ud30c\ud2f0_\uc0dd\uc131\<close>, \<^verbatim>\<open>\ud30c\ud2f0_\uacb0\uc131\<close>,
  \<^verbatim>\<open>\ubaa8\ud5d8_\uc900\ube44\<close>, and the fallback for any other session type.
\<close>

definition filename_map :: "(pystr \<times> pystr) list" where
  "filename_map =
     [([49884, 45208, 47532, 50724, 95, 49373, 49457], ascii ''scenario.json''),
      ([47784, 54744, 95, 49373, 49457], ascii ''adventure.json''),
      ([45912, 51204, 95, 49373, 49457], ascii ''dungeon.json''),
      ([54028, 54000, 95, 49373, 49457], ascii ''party.json''),
      ([54028, 54000, 95, 44208, 49457], ascii ''party.json''),
      ([47784, 54744, 95, 51456, 48708], ascii ''preparation.json'')]"

definition session_filename :: "pystr \<Rightarrow> pystr" where
  "session_filename session_type =
     (case map_of filename_map session_type of
        Some filename \<Rightarrow> filename
      | None \<Rightarrow> replace_underscores session_type @ ascii ''.json'')"

text \<open>
  \<open>filepath\<close>, from \<open>base_dir = os.path.abspath("sessions")\<close> (a parameter here), the
  text of the user id and the session type.
\<close>

definition session_filepath :: "pystr \<Rightarrow> pystr \<Rightarrow> pystr \<Rightarrow> pystr" where
  "session_filepath base_dir uid session_type =
     path_join (path_join base_dir (ascii ''user_'' @ uid)) (session_filename session_type)"

text \<open>
  The exception handlers of the write: remove the temporary file if it exists, swallowing
  a failure of that removal, and return \<open>False\<close>.
\<close>

definition cleanup_temp :: "os_outcomes \<Rightarrow> file_system \<Rightarrow> pystr \<Rightarrow> file_system" where
  "cleanup_temp os fs temp_filepath =
     (if fs temp_filepath \<noteq> None \<and> cleanup_ok os then fs(temp_filepath := None) else fs)"

text \<open>
  \<open>save_session_data\<close>: the returned flag and the files afterwards. The user id is
  given by its text. \<open>data\<close> is a JSON value, so the trial \<open>json.dumps(data)\<close> before the
  write cannot raise.
\<close>

definition save_session_data ::
  "os_outcomes \<Rightarrow> pystr \<Rightarrow> file_system \<Rightarrow> pystr \<Rightarrow> pystr \<Rightarrow> json \<Rightarrow> bool \<times> file_system" where
  "save_session_data os base_dir fs uid session_type data =
     (if uid = [] \<or> session_type = [] \<or> \<not> truthy data then (False, fs)
      else if \<not> makedirs_ok os then (False, fs)
      else if \<not> access_ok os then (False, fs)
      else
        let filepath = session_filepath base_dir uid session_type;
            temp_filepath = filepath @ ascii ''.tmp''
        in
          if \<not> open_temp_ok os then (False, cleanup_temp os fs temp_filepath)
          else if \<not> dump_ok os
          then (False, cleanup_temp os (fs(temp_filepath \<mapsto> Partial)) temp_filepath)
          else
            let fs1 = fs(temp_filepath \<mapsto> Document data) in
            if fs1 temp_filepath \<noteq> None then
              if fs1 filepath \<noteq> None \<and> \<not> remove_ok os
              then (False, cleanup_temp os fs1 temp_filepath)
              else
                let fs2 = (if fs1 filepath \<noteq> None then fs1(filepath := None) else fs1) in
                if \<not> rename_ok os then (False, cleanup_temp os fs2 temp_filepath)
                else
                  let fs3 = fs2(temp_filepath := None, filepath := fs2 temp_filepath) in
                  if fs3 filepath \<noteq> None then
                    (case (reopen_ok os, fs3 filepath) of
                       (True, Some (Document loaded_data)) \<Rightarrow> (True, fs3)
                     | _ \<Rightarrow> (False, fs3))
                  else (False, fs3)
            else (False, fs1))"

text \<open>
  Reading a session file back, as \<open>load_session_files_context\<close> does for each file: the
  parsed document, or nothing when the file is missing or does not parse.
\<close>

definition load_session_file :: "file_system \<Rightarrow> pystr \<Rightarrow> json option" where
  "load_session_file fs path =
     (case fs path of
        Some (Document data) \<Rightarrow> Some data
      | _ \<Rightarrow> None)"

text \<open>
  A user whose \<open>party.json\<close> holds an earlier save; a second save during which
  \<open>os.rename\<close> raises and every other call succeeds.
\<close>

definition all_ok :: os_outcomes where
  "all_ok = \<lparr> makedirs_ok = True, access_ok = True, open_temp_ok = True, dump_ok = True,
              remove_ok = True, rename_ok = True, reopen_ok = True, cleanup_ok = True \<rparr>"

definition C1_base_dir :: pystr where
  "C1_base_dir = ascii ''/srv/bot/sessions''"

definition C1_session :: pystr where
  "C1_session = [54028, 54000, 95, 49373, 49457]"

definition C1_old_data :: json where
  "C1_old_data = JDict [(ascii ''user_input'', JStr (ascii ''first''))]"

definition C1_new_data :: json where
  "C1_new_data = JDict [(ascii ''user_input'', JStr (ascii ''second''))]"

definition C1_path :: pystr where
  "C1_path = ascii ''/srv/bot/sessions/user_7/party.json''"

definition C1_files :: file_system where
  "C1_files = (\<lambda>p. None)(C1_path \<mapsto> Document C1_old_data)"

section \<open>Stage progression\<close>

lemma get_next_stage_steps:
  "get_next_stage (stage_value OVERVIEW) = stage_value EPISODES"
  "get_next_stage (stage_value EPISODES) = stage_value NPCS"
  "get_next_stage (stage_value NPCS) = stage_value HINTS"
  "get_next_stage (stage_value HINTS) = stage_value DUNGEONS"
  "get_next_stage (stage_value DUNGEONS) = stage_value COMPLETED"
  "get_next_stage (stage_value COMPLETED) = stage_value COMPLETED"
  by (simp_all add: get_next_stage_def stage_flow_def)

lemma get_next_stage_range:
  "get_next_stage s \<in> stage_value ` {EPISODES, NPCS, HINTS, DUNGEONS, COMPLETED}"
  by (simp add: get_next_stage_def stage_flow_def)

text \<open>
  C6. From the Overview stage, five applications of \<open>get_next_stage\<close> reach the Completed
  stage and no fewer do; a sixth application stays at Completed. The function is total:
  for every string whatsoever (every stage value, the terminal one and any string outside
  the enumeration) the result is one of the stage values, and every stage is sent to the
  value of a stage, the terminal stage to itself.
\<close>

theorem C6_get_next_stage_reaches_completed:
  "(get_next_stage ^^ 5) (stage_value OVERVIEW) = stage_value COMPLETED
   \<and> (get_next_stage ^^ 6) (stage_value OVERVIEW) = stage_value COMPLETED
   \<and> (get_next_stage ^^ 1) (stage_value OVERVIEW) = stage_value EPISODES
   \<and> (get_next_stage ^^ 2) (stage_value OVERVIEW) = stage_value NPCS
   \<and> (get_next_stage ^^ 3) (stage_value OVERVIEW) = stage_value HINTS
   \<and> (get_next_stage ^^ 4) (stage_value OVERVIEW) = stage_value DUNGEONS
   \<and> get_next_stage (stage_value COMPLETED) = stage_value COMPLETED
   \<and> (\<exists>t. get_next_stage (stage_value st) = stage_value t)
   \<and> (\<exists>t. get_next_stage s = stage_value t)"
proof -
  have r: "\<exists>t. get_next_stage x = stage_value t" for x
    using get_next_stage_range [of x] by blast
  have "(get_next_stage ^^ 5) (stage_value OVERVIEW) = stage_value COMPLETED"
       "(get_next_stage ^^ 6) (stage_value OVERVIEW) = stage_value COMPLETED"
       "(get_next_stage ^^ 1) (stage_value OVERVIEW) = stage_value EPISODES"
       "(get_next_stage ^^ 2) (stage_value OVERVIEW) = stage_value NPCS"
       "(get_next_stage ^^ 3) (stage_value OVERVIEW) = stage_value HINTS"
       "(get_next_stage ^^ 4) (stage_value OVERVIEW) = stage_value DUNGEONS"
    by (simp_all add: numeral_eq_Suc get_next_stage_steps del: stage_value.simps)
  then show ?thesis
    using r [of s] r [of "stage_value st"] get_next_stage_steps(6) by blast
qed

section \<open>The scenario record\<close>

lemma dict_get_dict_set: "dict_get (dict_set k v d) k = Some v"
  by (induction d) (auto simp: dict_get_def)

lemma load_after_save_ok:
  "load_scenario (fst (snd (save_scenario st uid d now WriteOk))) uid
     = Some (d\<lparr>last_updated := Some now\<rparr>)"
  by (simp add: save_scenario_def load_scenario_def Let_def)

lemma add_hint_ok:
  assumes "load_scenario st uid = Some d"
  shows "load_scenario (add_hint st uid h now WriteOk) uid
         = Some (d\<lparr>scenario := (scenario d)\<lparr>hints := hints (scenario d)
               @ [dict_set (ascii ''id'') (JInt (int (length (hints (scenario d))) + 1)) h]\<rparr>,
             last_updated := Some now\<rparr>)"
  using assms by (simp add: add_hint_def save_scenario_def load_scenario_def Let_def)

text \<open>
  C3, as stated, fails. A user is at the Episodes stage; \<open>init_scenario_creation\<close> is
  called again. What it returns is not the stored record, the stored record is replaced,
  and the current stage is back at Overview.
\<close>

theorem C3_counterexample:
  "load_scenario C3_store ex_user = Some C3_record
   \<and> fst (init_scenario_creation C3_store ex_user ex_time ex_time WriteOk) \<noteq> C3_record
   \<and> load_scenario (snd (init_scenario_creation C3_store ex_user ex_time ex_time WriteOk)) ex_user
        \<noteq> Some C3_record
   \<and> get_current_stage C3_store ex_user = stage_value EPISODES
   \<and> get_current_stage (snd (init_scenario_creation C3_store ex_user ex_time ex_time WriteOk)) ex_user
        = stage_value OVERVIEW"
  by (simp add: C3_store_def C3_record_def init_scenario_creation_def save_scenario_def
      load_scenario_def get_current_stage_def fresh_scenario_def Let_def)

text \<open>
  C3, amended. \<open>init_scenario_creation\<close> does not look at the store. Whatever is stored
  for the user, and whatever the write does, it returns a fresh record: stage Overview, no
  episodes, NPCs, hints or dungeons. When the write succeeds, that fresh record replaces
  the user's stored record (the store changes at this user only), so a load returns it.
\<close>

theorem C3_init_overwrites:
  "fst (init_scenario_creation st uid now_created now_saved w)
       = (fresh_scenario uid now_created)\<lparr>last_updated := Some now_saved\<rparr>
   \<and> snd (init_scenario_creation st uid now_created now_saved WriteOk)
       = st(uid \<mapsto> Stored ((fresh_scenario uid now_created)\<lparr>last_updated := Some now_saved\<rparr>))
   \<and> load_scenario (snd (init_scenario_creation st uid now_created now_saved WriteOk)) uid
       = Some (fst (init_scenario_creation st uid now_created now_saved WriteOk))
   \<and> current_stage (fst (init_scenario_creation st uid now_created now_saved w))
       = stage_value OVERVIEW
   \<and> episodes (scenario (fst (init_scenario_creation st uid now_created now_saved w))) = []
   \<and> npcs (scenario (fst (init_scenario_creation st uid now_created now_saved w))) = []
   \<and> hints (scenario (fst (init_scenario_creation st uid now_created now_saved w))) = []
   \<and> dungeons (scenario (fst (init_scenario_creation st uid now_created now_saved w))) = []"
  by (cases w) (simp_all add: init_scenario_creation_def save_scenario_def load_scenario_def
      fresh_scenario_def Let_def)

text \<open>
  C10. For a user for whom \<open>load_scenario\<close> yields nothing (no file, or a file that does
  not parse), \<open>set_current_stage\<close> leaves the whole store as it was, whatever stage is
  passed and whatever a write would have done; \<open>get_current_stage\<close> afterwards is still
  the default, Overview.
\<close>

theorem C10_set_current_stage_noop:
  assumes "load_scenario st uid = None"
  shows "set_current_stage st uid stage now w = st
         \<and> get_current_stage (set_current_stage st uid stage now w) uid = stage_value OVERVIEW"
  using assms by (simp add: set_current_stage_def get_current_stage_def)

text \<open>C10 at a store without any file, asking for the Hints stage.\<close>

theorem C10_witness:
  "load_scenario (\<lambda>u. None) ex_user = None
   \<and> set_current_stage (\<lambda>u. None) ex_user (stage_value HINTS) ex_time WriteOk = (\<lambda>u. None)
   \<and> get_current_stage (set_current_stage (\<lambda>u. None) ex_user (stage_value HINTS) ex_time WriteOk)
        ex_user = stage_value OVERVIEW"
proof -
  have h: "load_scenario (\<lambda>u. None) ex_user = None"
    by (simp add: load_scenario_def)
  show ?thesis
    using h C10_set_current_stage_noop [OF h, of "stage_value HINTS" ex_time WriteOk] by blast
qed

text \<open>
  C7. After \<open>init_scenario_creation\<close> and three calls of \<open>add_hint\<close> (all writes
  succeeding), whatever the store held before and whatever the three payloads are, the
  stored hints are the three payloads in call order with \<open>id\<close> set to 1, 2 and 3, and
  \<open>is_stage_complete\<close> for the Hints stage is true.
\<close>

theorem C7_three_hints_ids:
  "(\<exists>d. load_scenario (three_hints st uid t0 t0' h1 t1 h2 t2 h3 t3) uid = Some d
        \<and> hints (scenario d)
            = [dict_set (ascii ''id'') (JInt 1) h1,
               dict_set (ascii ''id'') (JInt 2) h2,
               dict_set (ascii ''id'') (JInt 3) h3]
        \<and> map (\<lambda>h. dict_get h (ascii ''id'')) (hints (scenario d))
            = [Some (JInt 1), Some (JInt 2), Some (JInt 3)])
   \<and> is_stage_complete npc_manager (three_hints st uid t0 t0' h1 t1 h2 t2 h3 t3) uid
        (stage_value HINTS)"
proof -
  let ?s0 = "snd (init_scenario_creation st uid t0 t0' WriteOk)"
  let ?d0 = "(fresh_scenario uid t0)\<lparr>last_updated := Some t0'\<rparr>"
  let ?s3 = "three_hints st uid t0 t0' h1 t1 h2 t2 h3 t3"
  have l0: "load_scenario ?s0 uid = Some ?d0"
    by (simp add: init_scenario_creation_def save_scenario_def load_scenario_def Let_def)
  have e0: "hints (scenario (fresh_scenario uid t0)) = []"
    by (simp add: fresh_scenario_def)
  note l1 = add_hint_ok [OF l0, of h1 t1]
  note l2 = add_hint_ok [OF l1, of h2 t2]
  note l3 = add_hint_ok [OF l2, of h3 t3]
  define d where "d = the (load_scenario ?s3 uid)"
  have d: "load_scenario ?s3 uid = Some d"
    using l3 by (simp add: three_hints_def d_def)
  have hs: "hints (scenario d)
            = [dict_set (ascii ''id'') (JInt 1) h1,
               dict_set (ascii ''id'') (JInt 2) h2,
               dict_set (ascii ''id'') (JInt 3) h3]"
    using l3 by (simp add: three_hints_def d_def e0)
  have ids: "map (\<lambda>h. dict_get h (ascii ''id'')) (hints (scenario d))
            = [Some (JInt 1), Some (JInt 2), Some (JInt 3)]"
    by (simp add: hs dict_get_dict_set)
  have c: "is_stage_complete npc_manager ?s3 uid (stage_value HINTS)"
    by (simp add: is_stage_complete_def d hs Let_def)
  have "\<exists>d. load_scenario ?s3 uid = Some d
        \<and> hints (scenario d)
            = [dict_set (ascii ''id'') (JInt 1) h1,
               dict_set (ascii ''id'') (JInt 2) h2,
               dict_set (ascii ''id'') (JInt 3) h3]
        \<and> map (\<lambda>h. dict_get h (ascii ''id'')) (hints (scenario d))
            = [Some (JInt 1), Some (JInt 2), Some (JInt 3)]"
    using d hs ids by (intro exI [of _ d]) simp
  then show ?thesis using c by (rule conjI)
qed

text \<open>
  C4, amended. For a user with a stored record, \<open>is_stage_complete\<close> for the Overview
  stage is true exactly when the four overview fields \<open>theme\<close>, \<open>setting\<close>,
  \<open>main_conflict\<close> and \<open>objective\<close> are all present and truthy (for a string: not
  empty). Neither \<open>title\<close> nor \<open>rewards\<close> is read.
\<close>

theorem C4_overview_four_fields:
  assumes "load_scenario st uid = Some d"
  shows "is_stage_complete npc_manager st uid (stage_value OVERVIEW)
         = (truthy_opt (dict_get (overview (scenario d)) (ascii ''theme''))
            \<and> truthy_opt (dict_get (overview (scenario d)) (ascii ''setting''))
            \<and> truthy_opt (dict_get (overview (scenario d)) (ascii ''main_conflict''))
            \<and> truthy_opt (dict_get (overview (scenario d)) (ascii ''objective'')))"
  using assms by (simp add: is_stage_complete_def Let_def)

text \<open>
  C4, as stated, fails: with the four fields filled and no title anywhere (the record's
  \<open>title\<close> is the empty string, the overview has no \<open>title\<close> key), the Overview stage is
  complete.
\<close>

theorem C4_counterexample:
  "load_scenario C4_store ex_user = Some C4_record
   \<and> title (scenario C4_record) = JStr []
   \<and> dict_get (overview (scenario C4_record)) (ascii ''title'') = None
   \<and> is_stage_complete None C4_store ex_user (stage_value OVERVIEW)"
  by (simp add: C4_store_def C4_record_def load_scenario_def is_stage_complete_def
      dict_get_def truthy_opt_def ascii_def Let_def)

text \<open>C4 (amended) at that record.\<close>

theorem C4_witness:
  "load_scenario C4_store ex_user = Some C4_record
   \<and> is_stage_complete None C4_store ex_user (stage_value OVERVIEW)
       = (truthy_opt (Some (JStr (ascii ''mystery'')))
          \<and> truthy_opt (Some (JStr (ascii ''village'')))
          \<and> truthy_opt (Some (JStr (ascii ''disappearance'')))
          \<and> truthy_opt (Some (JStr (ascii ''solve the case''))))"
proof -
  have h: "load_scenario C4_store ex_user = Some C4_record"
    by (simp add: C4_store_def load_scenario_def)
  have g: "dict_get (overview (scenario C4_record)) (ascii ''theme'') = Some (JStr (ascii ''mystery''))"
    "dict_get (overview (scenario C4_record)) (ascii ''setting'') = Some (JStr (ascii ''village''))"
    "dict_get (overview (scenario C4_record)) (ascii ''main_conflict'')
       = Some (JStr (ascii ''disappearance''))"
    "dict_get (overview (scenario C4_record)) (ascii ''objective'')
       = Some (JStr (ascii ''solve the case''))"
    by (simp_all add: C4_record_def dict_get_def ascii_def)
  show ?thesis
    using h C4_overview_four_fields [OF h, of None] by (simp only: g simp_thms)
qed

text \<open>
  C2, amended. For a user with a stored record and with \<open>npc_manager\<close> available,
  \<open>is_stage_complete\<close> for the NPC stage is true exactly when \<open>npc_manager.load_npcs\<close>
  returns (without raising) a list of at least three NPCs. The NPC records in the user's
  own scenario content are not read on this path.
\<close>

theorem C2_npc_stage_uses_manager_only:
  assumes "load_scenario st uid = Some d"
  shows "is_stage_complete (Some load_npcs) st uid (stage_value NPCS)
         = (case load_npcs uid of
              Inl e \<Rightarrow> False
            | Inr None \<Rightarrow> False
            | Inr (Some existing_npcs) \<Rightarrow> 3 \<le> length existing_npcs)"
  using assms
  by (auto simp add: is_stage_complete_def is_npc_stage_complete_def Let_def
      split: sum.splits option.splits)

text \<open>
  C2, as stated, fails: the user's scenario content holds no NPC record, the subsystem
  reports three, and the NPC stage is complete.
\<close>

theorem C2_counterexample:
  "load_scenario C2_store ex_user = Some C2_record
   \<and> npcs (scenario C2_record) = []
   \<and> is_stage_complete (Some C2_manager) C2_store ex_user (stage_value NPCS)"
  by (simp add: C2_store_def C2_record_def C2_manager_def load_scenario_def
      is_stage_complete_def is_npc_stage_complete_def fresh_scenario_def Let_def)

text \<open>C2 (amended) at that store and subsystem.\<close>

theorem C2_witness:
  "load_scenario C2_store ex_user = Some C2_record
   \<and> is_stage_complete (Some C2_manager) C2_store ex_user (stage_value NPCS)
       = (3 \<le> length [C2_npc, C2_npc, C2_npc])"
proof -
  have h: "load_scenario C2_store ex_user = Some C2_record"
    by (simp add: C2_store_def load_scenario_def)
  show ?thesis
    using h C2_npc_stage_uses_manager_only [OF h, of C2_manager]
    by (simp add: C2_manager_def)
qed

section \<open>The context budget\<close>

lemma marker_lengths: "length marker_before = 17" "length marker_after = 17"
  by (simp_all add: marker_before_def marker_after_def)

text \<open>
  A truncation to \<open>m\<close> characters yields \<open>m\<close> characters and a marker, provided that
  \<open>m\<close> is not negative and, where the tail is kept, not zero.
\<close>

lemma truncate_length:
  assumes "0 \<le> m" "m < int (length t)" "e \<longrightarrow> 0 < m"
  shows "int (length (truncate_text_safely t m e)) = m + 17"
proof (cases e)
  case True
  with assms have "0 < m" by simp
  with assms True show ?thesis
    by (simp add: truncate_text_safely_def slice_from_def marker_lengths)
next
  case False
  with assms show ?thesis
    by (simp add: truncate_text_safely_def slice_to_def marker_lengths)
qed

text \<open>Once the remaining budget is zero or less, no further block is emitted.\<close>

lemma optimize_loop_exhausted:
  "remaining_length \<le> 0 \<Longrightarrow> optimize_loop scale m n parts remaining_length = []"
  by (cases parts) simp_all

text \<open>
  The bound of the loop, where every allocation is non-negative and every block that
  keeps its tail has a positive allocation.
\<close>

lemma optimize_loop_bound:
  assumes "\<forall>p\<in>set parts. 0 \<le> allocated_length scale m n p"
    and "\<forall>p\<in>set parts. keeps_end p \<longrightarrow> 0 < allocated_length scale m n p"
  shows "total_length (map fst (optimize_loop scale m n parts r))
         \<le> max 0 r + 17 * int (length (filter snd (optimize_loop scale m n parts r)))"
  using assms
proof (induction parts arbitrary: r)
  case Nil
  then show ?case by (simp add: total_length_def)
next
  case (Cons p rest)
  show ?case
  proof (cases "r \<le> 0")
    case True
    then show ?thesis by (simp add: total_length_def)
  next
    case False
    define a where "a = min (allocated_length scale m n p) (min r (int (length p)))"
    define tr where "tr = (int (length p) > a)"
    define out where "out = (if tr then truncate_text_safely p a (keeps_end p) else p)"
    have a0: "0 \<le> a" and ar: "a \<le> r"
      using Cons.prems(1) False by (simp_all add: a_def)
    have ke: "keeps_end p \<longrightarrow> 0 < a" if "tr"
      using Cons.prems(2) False that by (auto simp add: a_def tr_def)
    have lo: "int (length out) \<le> a + 17 * (if tr then 1 else 0)"
    proof (cases tr)
      case True
      then have "a < int (length p)" by (simp add: tr_def)
      from truncate_length [OF a0 this ke [OF True]] True show ?thesis
        by (simp add: out_def)
    next
      case False
      then have "int (length p) \<le> a" by (simp add: tr_def)
      with False show ?thesis by (simp add: out_def)
    qed
    have step: "optimize_loop scale m n (p # rest) r
                = (out, tr) # optimize_loop scale m n rest (r - int (length out))"
      using False by (simp add: Let_def a_def tr_def out_def)
    have ih: "total_length (map fst (optimize_loop scale m n rest (r - int (length out))))
         \<le> max 0 (r - int (length out))
           + 17 * int (length (filter snd (optimize_loop scale m n rest (r - int (length out)))))"
      using Cons.IH [of "r - int (length out)"] Cons.prems by simp
    show ?thesis
    proof (cases "r - int (length out) \<le> 0")
      case True
      then have "optimize_loop scale m n rest (r - int (length out)) = []"
        by (rule optimize_loop_exhausted)
      with step lo ar False show ?thesis
        by (simp add: total_length_def split: if_splits)
    next
      case False
      with ih step lo show ?thesis
        by (simp add: total_length_def split: if_splits)
    qed
  qed
qed

text \<open>
  Where the claimed bound does hold: a budget that is not negative, allocations that are
  not negative, and a positive allocation for every block that keeps its tail (with the
  budgets of the callers, 3000 and 7000, and fewer blocks than that, every allocation is
  positive).
\<close>

lemma optimize_context_parts_bound:
  assumes "0 \<le> m"
    and "\<forall>p\<in>set parts. 0 \<le> allocated_length scale m (length parts) p"
    and "\<forall>p\<in>set parts. keeps_end p \<longrightarrow> 0 < allocated_length scale m (length parts) p"
  shows "total_length (optimize_context_parts scale parts m)
         \<le> m + 17 * int (truncated_blocks scale parts m)"
proof (cases "parts = [] \<or> \<not> is_oversized parts m")
  case True
  then show ?thesis
    using assms(1)
    by (auto simp add: optimize_context_parts_def optimize_trace_def truncated_blocks_def
        is_oversized_def total_length_def comp_def)
next
  case False
  then show ?thesis
    using optimize_loop_bound [OF assms(2,3), of m] assms(1)
    by (simp add: optimize_context_parts_def optimize_trace_def truncated_blocks_def)
qed

text \<open>The run on the two blocks with budget 1, step by step.\<close>

lemma C5_keeps_end: "keeps_end C5_block"
  by (simp add: keeps_end_def C5_block_def)

lemma C5_no_priority:
  "find (\<lambda>(keyword, ratio). contains C5_block keyword) priority_keywords = None"
  by (simp add: priority_keywords_def C5_block_def ascii_def)

lemma C5_alloc: "allocated_length scale 1 2 C5_block = 0"
  by (simp add: allocated_length_def C5_no_priority)

lemma C5_len: "int (length C5_block) = 12" "length (ascii ''x'') = 1"
  by (simp_all add: C5_block_def ascii_def)

lemma C5_trunc: "truncate_text_safely C5_block 0 True = marker_before @ C5_block"
  by (simp add: truncate_text_safely_def slice_from_def C5_len)

lemma C5_loop: "optimize_loop scale 1 2 C5_parts 1 = [(marker_before @ C5_block, True)]"
  unfolding C5_parts_def
  by (simp add: C5_alloc C5_keeps_end C5_trunc C5_len Let_def marker_before_def
      del: optimize_loop.simps(2)
      add: optimize_loop.simps(2) [of scale 1 2 C5_block]
           optimize_loop.simps(2) [of scale 1 2 "ascii ''x''"])

lemma C5_trace: "optimize_trace scale C5_parts 1 = [(marker_before @ C5_block, True)]"
proof -
  have "is_oversized C5_parts 1"
    by (simp add: is_oversized_def total_length_def C5_parts_def C5_len)
  moreover have "C5_parts \<noteq> []" "length C5_parts = 2"
    by (simp_all add: C5_parts_def)
  ultimately show ?thesis
    by (simp add: optimize_trace_def C5_loop)
qed

text \<open>
  C5 at a budget of 1 with two blocks of 12 and 1 characters. The first block is allocated
  \<open>1 // 2 = 0\<close> characters, and keeps its tail: \<open>text[-0:]\<close> is the whole text, so the
  block comes back whole behind the marker. One block is truncated, and the total is 29,
  above the claimed \<open>1 + 17 * 1\<close>. The second block is dropped, as the claim says.
\<close>

theorem C5_zero_allocation_returns_whole_block:
  "is_oversized C5_parts 1
   \<and> optimize_context_parts scale C5_parts 1 = [marker_before @ C5_block]
   \<and> truncated_blocks scale C5_parts 1 = 1
   \<and> total_length (optimize_context_parts scale C5_parts 1) = 29
   \<and> \<not> total_length (optimize_context_parts scale C5_parts 1)
          \<le> 1 + 17 * int (truncated_blocks scale C5_parts 1)"
proof -
  have o: "is_oversized C5_parts 1"
    by (simp add: is_oversized_def total_length_def C5_parts_def C5_len)
  have p: "optimize_context_parts scale C5_parts 1 = [marker_before @ C5_block]"
    by (simp add: optimize_context_parts_def C5_trace)
  have t: "truncated_blocks scale C5_parts 1 = 1"
    by (simp add: truncated_blocks_def C5_trace)
  have l: "total_length (optimize_context_parts scale C5_parts 1) = 29"
    by (simp add: p total_length_def marker_lengths C5_len)
  from o p t l show ?thesis by simp
qed

section \<open>Repetition\<close>

lemma set_dict_set: "set (dict_set k v d) \<subseteq> insert (k, v) (set d)"
  by (induction d) (auto split: if_splits)

lemma map_of_dict_set: "map_of (dict_set k v d) = (map_of d)(k \<mapsto> v)"
  by (induction d) auto

lemma keyword_fold_map_of:
  "map_of (foldl (\<lambda>d keyword. let count = py_count text keyword
                                in if count > 0 then dict_set keyword count d else d) d0 ks) k
   = (if k \<in> set ks \<and> 0 < py_count text k then Some (py_count text k) else map_of d0 k)"
  by (induction ks arbitrary: d0) (auto simp add: Let_def map_of_dict_set)

lemma keyword_fold_set:
  "(k, v) \<in> set (foldl (\<lambda>d keyword. let count = py_count text keyword
                                in if count > 0 then dict_set keyword count d else d) d0 ks)
   \<Longrightarrow> (k, v) \<in> set d0 \<or> (k \<in> set ks \<and> v = py_count text k)"
proof (induction ks arbitrary: d0)
  case Nil
  then show ?case by simp
next
  case (Cons x xs)
  let ?d1 = "if py_count text x > 0 then dict_set x (py_count text x) d0 else d0"
  from Cons.prems have "(k, v) \<in> set ?d1 \<or> (k \<in> set xs \<and> v = py_count text k)"
    using Cons.IH [of "?d1"] by (simp add: Let_def)
  then show ?case
    using set_dict_set [of x "py_count text x" d0] by (auto split: if_splits)
qed

lemma high_frequency_present:
  assumes "k \<in> set repetitive_keywords" "3 \<le> py_count text k"
  shows "high_frequency_keywords text \<noteq> []"
proof -
  have "map_of (keyword_count text repetitive_keywords) k = Some (py_count text k)"
    using assms by (simp add: keyword_count_def keyword_fold_map_of)
  then have "(k, py_count text k) \<in> set (keyword_count text repetitive_keywords)"
    by (rule map_of_SomeD)
  with assms(2) have "(k, py_count text k)
      \<in> set (filter (\<lambda>(k, v). v \<ge> 3) (keyword_count text repetitive_keywords))"
    by simp
  then show ?thesis
    unfolding high_frequency_keywords_def by (metis empty_iff empty_set map_is_Nil_conv)
qed

lemma high_frequency_absent:
  assumes "\<forall>k\<in>set repetitive_keywords. py_count text k \<le> 2"
  shows "high_frequency_keywords text = []"
proof -
  have "\<not> 3 \<le> v" if "(k, v) \<in> set (keyword_count text repetitive_keywords)" for k v
    using keyword_fold_set [of k v "text" "[]" repetitive_keywords] that assms
    by (auto simp add: keyword_count_def)
  then show ?thesis
    by (auto simp add: high_frequency_keywords_def filter_empty_conv)
qed

lemma py_int_value: "py_int rt r = Inr n \<Longrightarrow> n = digits_value rt r"
  by (auto simp add: py_int_def split: option.splits if_splits)

lemma max_int_of_member:
  "max_int_of rt rs = Inr m \<Longrightarrow> \<exists>r\<in>set rs. m = digits_value rt r"
proof (induction rt rs arbitrary: m rule: max_int_of.induct)
  case (1 rt)
  then show ?case by simp
next
  case (2 rt r)
  then show ?case by (simp add: py_int_value)
next
  case (3 rt r r' rs)
  from "3.prems" obtain n m' where n: "py_int rt r = Inr n"
    and m': "max_int_of rt (r' # rs) = Inr m'" and mm: "m = max n m'"
    by (auto split: sum.splits)
  from "3.IH" [OF n m'] obtain q where "q \<in> set (r' # rs)" "m' = digits_value rt q"
    by blast
  with n mm show ?case
    by (cases "n \<le> m'") (auto simp add: max_def dest: py_int_value)
qed

text \<open>The two results in terms of what \<open>str.count\<close> returns.\<close>

lemma repetition_by_count:
  "((\<exists>k\<in>set repetitive_keywords. 3 \<le> py_count (recent_text rt conversation_history) k)
      \<longrightarrow> check_repetitive_situation_in_context rt scenario_context conversation_history)
   \<and> ((\<forall>k\<in>set repetitive_keywords. py_count (recent_text rt conversation_history) k \<le> 2)
        \<and> (\<forall>r\<in>set (findall_rounds rt (recent_text rt conversation_history)).
              digits_value rt r < 5)
      \<longrightarrow> \<not> check_repetitive_situation_in_context rt scenario_context conversation_history)"
proof (intro conjI impI)
  assume "\<exists>k\<in>set repetitive_keywords. 3 \<le> py_count (recent_text rt conversation_history) k"
  then have "high_frequency_keywords (recent_text rt conversation_history) \<noteq> []"
    using high_frequency_present by blast
  then show "check_repetitive_situation_in_context rt scenario_context conversation_history"
    by (simp add: check_repetitive_situation_in_context_def Let_def)
next
  let ?t = "recent_text rt conversation_history"
  assume h: "(\<forall>k\<in>set repetitive_keywords. py_count ?t k \<le> 2)
        \<and> (\<forall>r\<in>set (findall_rounds rt ?t). digits_value rt r < 5)"
  then have hf: "high_frequency_keywords ?t = []"
    using high_frequency_absent by blast
  have "m < 5" if "max_int_of rt (findall_rounds rt ?t) = Inr m" for m
    using max_int_of_member [OF that] h by auto
  then show "\<not> check_repetitive_situation_in_context rt scenario_context conversation_history"
    by (auto simp add: check_repetitive_situation_in_context_def Let_def hf split: sum.splits)
qed

text \<open>
  \<open>str.count\<close> against the number of positions. The count never exceeds the number of
  positions, and for a keyword whose characters are all different (no occurrence can
  overlap another) the two agree. Every keyword of the list is of that kind.
\<close>

lemma starts_with_append: "starts_with s sub \<longleftrightarrow> (\<exists>r. s = sub @ r)"
  by (induction s sub rule: starts_with.induct) auto

lemma occurrences_drop_le: "occurrences sub (drop k s) \<le> occurrences sub s"
proof (induction s arbitrary: k)
  case Nil
  then show ?case by simp
next
  case (Cons c s)
  show ?case
  proof (cases k)
    case 0
    then show ?thesis by simp
  next
    case (Suc j)
    then show ?thesis
      using Cons.IH [of j] by simp
  qed
qed

lemma count_from_le_occurrences: "count_from sub s \<le> occurrences sub s"
proof (induction sub s rule: count_from.induct)
  case (1 sub s)
  show ?case
  proof (cases "sub = [] \<or> s = []")
    case True
    then show ?thesis by (simp add: count_from.simps)
  next
    case False
    then obtain c s' where s: "s = c # s'" by (cases s) auto
    show ?thesis
    proof (cases "starts_with s sub")
      case True
      have "count_from sub s = Suc (count_from sub (drop (length sub) s))"
        using False True by (subst count_from.simps) simp
      also have "\<dots> \<le> Suc (occurrences sub (drop (length sub) s))"
        using "1.IH"(1) False True by simp
      also have "drop (length sub) s = drop (length sub - 1) s'"
        using False s by (cases sub) simp_all
      also have "Suc (occurrences sub (drop (length sub - 1) s')) \<le> Suc (occurrences sub s')"
        using occurrences_drop_le by simp
      also have "\<dots> = occurrences sub s"
        using True s by simp
      finally show ?thesis .
    next
      case nsw: False
      have "count_from sub s = count_from sub (tl s)"
        using False nsw by (subst count_from.simps) simp
      also have "\<dots> \<le> occurrences sub (tl s)"
        using "1.IH"(2) False nsw by simp
      also have "\<dots> \<le> occurrences sub s"
        using s by simp
      finally show ?thesis .
    qed
  qed
qed

lemma occurrences_skip:
  "(\<forall>j<k. \<not> starts_with (drop j t) sub) \<Longrightarrow> occurrences sub t = occurrences sub (drop k t)"
proof (induction k arbitrary: t)
  case 0
  then show ?case by simp
next
  case (Suc k)
  show ?case
  proof (cases t)
    case Nil
    then show ?thesis by simp
  next
    case (Cons c t')
    from Suc.prems have h0: "\<not> starts_with t sub"
      by (metis drop0 zero_less_Suc)
    have "\<forall>j<k. \<not> starts_with (drop j t') sub"
    proof (intro allI impI)
      fix j assume "j < k"
      then have "\<not> starts_with (drop (Suc j) t) sub"
        using Suc.prems by simp
      then show "\<not> starts_with (drop j t') sub"
        using Cons by simp
    qed
    from Suc.IH [OF this] h0 Cons show ?thesis by simp
  qed
qed

lemma no_overlap:
  assumes "distinct sub" "starts_with s sub" "0 < i" "i < length sub"
  shows "\<not> starts_with (drop i s) sub"
proof
  assume "starts_with (drop i s) sub"
  then obtain r' where r': "drop i s = sub @ r'"
    by (auto simp add: starts_with_append)
  from assms(2) obtain r where r: "s = sub @ r"
    by (auto simp add: starts_with_append)
  have "sub \<noteq> []" using assms by auto
  have "(drop i s) ! 0 = sub ! 0"
    using r' \<open>sub \<noteq> []\<close> by (simp add: nth_append)
  moreover have "(drop i s) ! 0 = s ! i"
    using r assms(4) nth_drop [of i s 0] by simp
  moreover have "s ! i = sub ! i"
    using r assms(4) by (simp add: nth_append)
  ultimately have "sub ! i = sub ! 0" by simp
  moreover have "0 < length sub" using \<open>sub \<noteq> []\<close> by simp
  ultimately have "i = 0"
    using nth_eq_iff_index_eq [OF assms(1) assms(4), of 0] by simp
  with assms(3) show False by simp
qed

lemma count_from_eq_occurrences:
  assumes d: "distinct sub" and ne: "sub \<noteq> []"
  shows "count_from sub s = occurrences sub s"
  using d ne
proof (induction sub s rule: count_from.induct)
  case (1 sub s)
  show ?case
  proof (cases "s = []")
    case True
    then show ?thesis by (simp add: count_from.simps)
  next
    case False
    then obtain c s' where s: "s = c # s'" by (cases s) auto
    show ?thesis
    proof (cases "starts_with s sub")
      case True
      have skip: "\<forall>j<length sub - 1. \<not> starts_with (drop j s') sub"
      proof (intro allI impI)
        fix j assume "j < length sub - 1"
        then have "\<not> starts_with (drop (Suc j) s) sub"
          using no_overlap [OF "1.prems"(1) True, of "Suc j"] by simp
        then show "\<not> starts_with (drop j s') sub"
          using s by simp
      qed
      have dr: "drop (length sub) s = drop (length sub - 1) s'"
        using "1.prems"(2) s by (cases sub) simp_all
      have "count_from sub s = Suc (count_from sub (drop (length sub) s))"
        using False True "1.prems"(2) by (subst count_from.simps) simp
      also have "\<dots> = Suc (occurrences sub (drop (length sub) s))"
        using "1.IH"(1) False True "1.prems" by simp
      also have "\<dots> = Suc (occurrences sub s')"
        using occurrences_skip [OF skip] dr by simp
      also have "\<dots> = occurrences sub s"
        using True s by simp
      finally show ?thesis .
    next
      case nsw: False
      have "count_from sub s = count_from sub (tl s)"
        using False nsw "1.prems"(2) by (subst count_from.simps) simp
      also have "\<dots> = occurrences sub (tl s)"
        using "1.IH"(2) False nsw "1.prems" by simp
      also have "\<dots> = occurrences sub s"
        using s nsw by simp
      finally show ?thesis .
    qed
  qed
qed

lemma repetitive_keywords_distinct:
  "\<forall>k\<in>set repetitive_keywords. distinct k \<and> k \<noteq> []"
  by (simp add: repetitive_keywords_def)

lemma py_count_keyword:
  "k \<in> set repetitive_keywords \<Longrightarrow> py_count s k = occurrences k s"
  using repetitive_keywords_distinct by (simp add: py_count_def count_from_eq_occurrences)


text \<open>
  C8. Let the text be the last ten turns, joined and lower-cased. If some keyword of the
  fixed list occurs at least three times in it, the function returns true, whatever the
  scenario context is. If every keyword occurs at most twice and every round number that
  the pattern finds in the text is below five, the function returns false.
\<close>

theorem C8_repetition_detected:
  "((\<exists>k\<in>set repetitive_keywords. 3 \<le> occurrences k (recent_text rt conversation_history))
      \<longrightarrow> check_repetitive_situation_in_context rt scenario_context conversation_history)
   \<and> ((\<forall>k\<in>set repetitive_keywords. occurrences k (recent_text rt conversation_history) \<le> 2)
        \<and> (\<forall>r\<in>set (findall_rounds rt (recent_text rt conversation_history)).
              digits_value rt r < 5)
      \<longrightarrow> \<not> check_repetitive_situation_in_context rt scenario_context conversation_history)"
  using repetition_by_count [of rt conversation_history scenario_context]
  by (simp add: py_count_keyword)

text \<open>
  The two inputs of the witness, evaluated: three turns holding the last keyword of the
  list, and one turn holding the round number three.
\<close>

lemma C8_text_a:
  "recent_text ascii_runtime C8_repeating
   = [48152, 48373, 10, 48152, 48373, 10, 48152, 48373]"
  by (simp add: recent_text_def ascii_runtime_def C8_repeating_def last_turns_def)

lemma C8_text_b:
  "recent_text ascii_runtime C8_round_three = [46972, 50868, 46300, 32, 51]"
  by (simp add: recent_text_def ascii_runtime_def C8_round_three_def last_turns_def)

lemma C8_count_a:
  "occurrences [48152, 48373] [48152, 48373, 10, 48152, 48373, 10, 48152, 48373] = 3"
  by simp

lemma C8_count_b:
  "\<forall>k\<in>set repetitive_keywords. occurrences k [46972, 50868, 46300, 32, 51] \<le> 2"
  by (simp add: repetitive_keywords_def)

lemma C8_rounds_b: "findall_rounds ascii_runtime [46972, 50868, 46300, 32, 51] = [[51]]"
  by (simp add: findall_rounds.simps match_round_def ROUND_def ascii_runtime_def)

lemma C8_value_b: "digits_value ascii_runtime [51] = 3"
  by (simp add: digits_value_def ascii_runtime_def)

text \<open>C8 at these two conversations.\<close>

theorem C8_witness:
  "3 \<le> occurrences [48152, 48373] (recent_text ascii_runtime C8_repeating)
   \<and> [48152, 48373] \<in> set repetitive_keywords
   \<and> check_repetitive_situation_in_context ascii_runtime [] C8_repeating
   \<and> list_all (\<lambda>k. occurrences k (recent_text ascii_runtime C8_round_three) \<le> 2)
         repetitive_keywords
   \<and> findall_rounds ascii_runtime (recent_text ascii_runtime C8_round_three) = [[51]]
   \<and> digits_value ascii_runtime [51] = 3
   \<and> contains C8_context EPISODE
   \<and> contains (recent_text ascii_runtime C8_round_three) ROUND
   \<and> \<not> check_repetitive_situation_in_context ascii_runtime C8_context C8_round_three"
proof -
  have a1: "3 \<le> occurrences [48152, 48373] (recent_text ascii_runtime C8_repeating)"
    by (simp add: C8_text_a)
  have a2: "[48152, 48373] \<in> set repetitive_keywords"
    by (simp add: repetitive_keywords_def)
  have b1: "\<forall>k\<in>set repetitive_keywords.
              occurrences k (recent_text ascii_runtime C8_round_three) \<le> 2"
    using C8_count_b by (simp add: C8_text_b)
  have b2: "findall_rounds ascii_runtime (recent_text ascii_runtime C8_round_three) = [[51]]"
    by (simp add: C8_text_b C8_rounds_b)
  have b3: "\<forall>r\<in>set (findall_rounds ascii_runtime (recent_text ascii_runtime C8_round_three)).
              digits_value ascii_runtime r < 5"
    by (simp add: b2 C8_value_b)
  have c: "contains C8_context EPISODE" "contains (recent_text ascii_runtime C8_round_three) ROUND"
    by (simp_all add: C8_context_def EPISODE_def C8_text_b ROUND_def)
  have t: "check_repetitive_situation_in_context ascii_runtime [] C8_repeating"
    using a1 a2 C8_repetition_detected [of ascii_runtime C8_repeating "[]"] by blast
  have f: "\<not> check_repetitive_situation_in_context ascii_runtime C8_context C8_round_three"
    using b1 b3 C8_repetition_detected [of ascii_runtime C8_round_three C8_context] by blast
  from a1 a2 t b1 b2 c f show ?thesis
    by (simp add: list_all_iff C8_value_b)
qed

section \<open>Session completion\<close>

text \<open>
  C9. Whatever the backend does, \<open>extract_session_completion_info\<close> returns a flag and
  raises nothing. When the judged phase is reached (no phrase of the session type occurs in
  the text, and the session type has a description, so that a prompt is sent) and the
  backend call raises, the flag is \<open>False\<close>.
\<close>

theorem C9_backend_failure_is_false:
  "(\<exists>b. extract_session_completion_info generate text session_type conversation_history = Inr b)
   \<and> (\<not> keyword_hit text session_type
        \<and> judge_prompt text session_type conversation_history = Some prompt
        \<and> generate prompt [] OTHER_label [] = Inl e
      \<longrightarrow> extract_session_completion_info generate text session_type conversation_history
           = Inr False)"
  by (auto simp add: extract_session_completion_info_def split: option.splits sum.splits)

text \<open>
  C9 at a message without any phrase, in a session that has a description, with a backend
  that raises.
\<close>

lemma C9_no_hit: "\<not> keyword_hit C9_text C9_session"
  by (simp add: keyword_hit_def completion_keywords_def C9_text_def C9_session_def ascii_def)

lemma C9_has_prompt:
  "judge_prompt C9_text C9_session [] = Some (the (judge_prompt C9_text C9_session []))"
  by (simp add: judge_prompt_def session_descriptions_def C9_session_def Let_def)

theorem C9_witness:
  "\<not> keyword_hit C9_text C9_session
   \<and> judge_prompt C9_text C9_session [] = Some (the (judge_prompt C9_text C9_session []))
   \<and> failing_backend (the (judge_prompt C9_text C9_session [])) [] OTHER_label []
       = Inl (PyException (ascii ''TimeoutError''))
   \<and> extract_session_completion_info failing_backend C9_text C9_session [] = Inr False"
proof -
  have f: "failing_backend (the (judge_prompt C9_text C9_session [])) [] OTHER_label []
       = Inl (PyException (ascii ''TimeoutError''))"
    by (simp add: failing_backend_def)
  from C9_no_hit C9_has_prompt f
    C9_backend_failure_is_false [of failing_backend C9_text C9_session "[]"
      "the (judge_prompt C9_text C9_session [])" "PyException (ascii ''TimeoutError'')"]
  show ?thesis by blast
qed

section \<open>Saving session data\<close>

text \<open>
  A failure before the destination is removed leaves the destination as it was: directory
  creation, the access check, opening or writing the temporary file, or removing the
  destination.
\<close>

lemma save_failure_before_remove_keeps_file:
  assumes "\<not> makedirs_ok os \<or> \<not> access_ok os \<or> \<not> open_temp_ok os \<or> \<not> dump_ok os
           \<or> (fs (session_filepath base_dir uid session_type) \<noteq> None \<and> \<not> remove_ok os)"
  shows "snd (save_session_data os base_dir fs uid session_type data)
           (session_filepath base_dir uid session_type)
         = fs (session_filepath base_dir uid session_type)"
proof -
  have ne: "session_filepath base_dir uid session_type @ ascii ''.tmp''
            \<noteq> session_filepath base_dir uid session_type"
    by (simp add: ascii_def)
  show ?thesis
    using assms ne
    by (auto simp add: save_session_data_def Let_def cleanup_temp_def)
qed

text \<open>With every call succeeding, the data is stored and the temporary file is gone.\<close>

lemma save_success_stores_data:
  assumes "uid \<noteq> []" "session_type \<noteq> []" "truthy data"
  shows "save_session_data all_ok base_dir fs uid session_type data
         = (True, fs(session_filepath base_dir uid session_type @ ascii ''.tmp'' := None,
                     session_filepath base_dir uid session_type \<mapsto> Document data))"
proof -
  have ne: "session_filepath base_dir uid session_type @ ascii ''.tmp''
            \<noteq> session_filepath base_dir uid session_type"
    by (simp add: ascii_def)
  show ?thesis
    using assms ne
    by (auto simp add: save_session_data_def Let_def all_ok_def fun_eq_iff)
qed


lemma C1_filepath: "session_filepath C1_base_dir (ascii ''7'') C1_session = C1_path"
  by (simp add: session_filepath_def session_filename_def filename_map_def C1_session_def
      path_join_def C1_base_dir_def C1_path_def ascii_def)

text \<open>
  C1 at a save during which \<open>os.rename\<close> raises. The destination held the earlier data;
  by the time of the rename it has been removed; the handler removes the temporary file
  and the function returns \<open>False\<close>. Afterwards there is no file at the destination, so
  a load returns nothing where the claim has it return the earlier data.
\<close>

theorem C1_rename_failure_loses_previous_file:
  "load_session_file C1_files C1_path = Some C1_old_data
   \<and> fst (save_session_data (all_ok\<lparr>rename_ok := False\<rparr>) C1_base_dir C1_files
            (ascii ''7'') C1_session C1_new_data) = False
   \<and> snd (save_session_data (all_ok\<lparr>rename_ok := False\<rparr>) C1_base_dir C1_files
            (ascii ''7'') C1_session C1_new_data) C1_path = None
   \<and> load_session_file
        (snd (save_session_data (all_ok\<lparr>rename_ok := False\<rparr>) C1_base_dir C1_files
               (ascii ''7'') C1_session C1_new_data)) C1_path = None"
proof -
  have ne: "C1_path @ ascii ''.tmp'' \<noteq> C1_path" "ascii ''7'' \<noteq> []" "C1_session \<noteq> []"
    "truthy C1_new_data"
    by (simp_all add: ascii_def C1_session_def C1_new_data_def)
  show ?thesis
    using ne
    by (simp add: save_session_data_def C1_filepath Let_def all_ok_def cleanup_temp_def
        C1_files_def load_session_file_def)
qed

end
